theory Spec2Isabelle
  imports Complex_Main "HOL-Library.Signed_Division" "HOL-Library.Word"
begin

section \<open>Matchstick Empire: the simulation core\<close>

text \<open>
  The TypeScript sources are embedded function by function.  A \<open>bigint\<close> is an \<open>int\<close>;
  a \<open>number\<close> is a \<open>real\<close>: NaN and the infinities of IEEE doubles are outside the model,
  and so is rounding, except in the price of an auto-clicker, where the rounding of a
  product decides a floor and the double arithmetic is written out.  Counters that the
  code only initialises to a whole number and increments by one (levels, combo counts,
  unlock totals) are \<open>nat\<close>.  Every call of \<open>Date.now()\<close> is an explicit argument \<open>now\<close>.
\<close>

type_synonym number = real
type_synonym bigint = int

subsection \<open>utils/numbers.ts: SafeBigInt\<close>

definition MAX_SAFE :: bigint where
  "MAX_SAFE = 2 ^ 1000 - 1"

definition SafeBigInt_add :: "bigint \<Rightarrow> bigint \<Rightarrow> bigint" where
  "SafeBigInt_add a b = (let result = a + b in if result > MAX_SAFE then MAX_SAFE else result)"

definition SafeBigInt_subtract :: "bigint \<Rightarrow> bigint \<Rightarrow> bigint" where
  "SafeBigInt_subtract a b = (let result = a - b in if result < 0 then 0 else result)"

definition SafeBigInt_multiply :: "bigint \<Rightarrow> bigint \<Rightarrow> bigint" where
  "SafeBigInt_multiply a b = (let result = a * b in if result > MAX_SAFE then MAX_SAFE else result)"

text \<open>The quotient of two bigints is truncated toward zero, which is \<open>sdiv\<close> on \<open>int\<close>.\<close>

definition SafeBigInt_divide :: "bigint \<Rightarrow> bigint \<Rightarrow> bigint" where
  "SafeBigInt_divide a b = (if b = 0 then 0 else a sdiv b)"

definition SafeBigInt_compare :: "bigint \<Rightarrow> bigint \<Rightarrow> int" where
  "SafeBigInt_compare a b = (if a < b then - 1 else if a > b then 1 else 0)"

definition SafeBigInt_isSafe :: "bigint \<Rightarrow> bool" where
  "SafeBigInt_isSafe v \<longleftrightarrow> v \<le> MAX_SAFE \<and> v \<ge> 0"


subsection \<open>types: the shared game state\<close>

text \<open>
  The state record has the sections the simulation core reads or writes.  The sections
  \<open>tutorial\<close>, \<open>settings\<close> and \<open>easterEggs\<close>, the achievement \<open>progress\<close> and \<open>notifications\<close>
  tables, \<open>progression.milestones\<close> and \<open>automation.multipliers\<close> are display data that no
  function below touches; they are left out.  An auto-clicker entry has the five fields that
  \<open>purchaseAutoClicker\<close> writes.
\<close>

record ResourceState =
  matchsticks :: bigint
  money :: number
  wood :: number
  reputation :: number

record ProductionState =
  manualRate :: number
  automatedRate :: number
  multipliers :: "(string \<times> number) list"
  lastUpdate :: number
  totalProduced :: bigint

record MarketCondition =
  priceMultiplier :: number
  demandLevel :: string
  trend :: string
  duration :: number
  description :: string

record PriceHistoryEntry =
  timestamp :: number
  price :: number
  volume :: number
  entry_condition :: string

record MarketState =
  currentPrice :: number
  basePrice :: number
  priceHistory :: "PriceHistoryEntry list"
  condition :: "MarketCondition option"
  autoSellEnabled :: bool
  autoSellThreshold :: number
  totalSold :: bigint
  totalRevenue :: number

record AutoClicker =
  clicker_id :: string
  level :: nat
  isActive :: bool
  totalClicks :: bigint
  efficiency :: number

record AutoSellSettings =
  enabled :: bool
  threshold :: number
  maxPercentage :: number
  priceThreshold :: number
  smartSelling :: bool

record AutomationState =
  autoClickers :: "AutoClicker list"
  automation_autoSellEnabled :: bool
  autoSellSettings :: AutoSellSettings
  totalMoneySpent :: number
  automation_lastUpdate :: number

record AchievementStats =
  totalUnlocked :: nat
  totalHidden :: number
  completionPercentage :: number
  unlockedToday :: number

record AchievementState =
  unlocked :: "string list"
  stats :: AchievementStats

record ProgressionState =
  currentPhase :: string
  unlockedFeatures :: "string list"
  completedTutorials :: "string list"
  worldConversionProgress :: number
  prestigeLevel :: number

record GameMetadata =
  version :: string
  createdAt :: number
  lastSaved :: number
  totalPlayTime :: number
  sessionStartTime :: number
  playerId :: string
  gameSpeed :: number
  debugMode :: bool

record GameState =
  resources :: ResourceState
  production :: ProductionState
  market :: MarketState
  automation :: AutomationState
  achievements :: AchievementState
  progression :: ProgressionState
  metadata :: GameMetadata

text \<open>
  An event keeps its type, timestamp and source; its id (built from \<open>Math.random\<close>) and its
  untyped payload are left out.
\<close>

record GameEvent =
  event_type :: string
  event_timestamp :: number
  event_source :: string

text \<open>\<open>Partial<ResourceState>\<close>: every field may be absent.\<close>

record ResourceDelta =
  d_matchsticks :: "bigint option"
  d_money :: "number option"
  d_wood :: "number option"
  d_reputation :: "number option"

definition no_delta :: ResourceDelta where
  "no_delta = \<lparr>d_matchsticks = None, d_money = None, d_wood = None, d_reputation = None\<rparr>"

text \<open>Truthiness of an optional bigint or number, and the idiom \<open>x || 0\<close>.\<close>

definition truthy :: "'a::zero option \<Rightarrow> bool" where
  "truthy x = (case x of None \<Rightarrow> False | Some v \<Rightarrow> v \<noteq> 0)"

definition or0 :: "'a::zero option \<Rightarrow> 'a" where
  "or0 x = (case x of None \<Rightarrow> 0 | Some v \<Rightarrow> v)"

subsection \<open>services/achievements.ts: the rule table\<close>

record Requirements =
  req_type :: string
  req_resource :: "string option"
  req_amount :: "bigint option"
  req_stat :: "string option"
  req_value :: "number option"
  req_phase :: "string option"

record Reward =
  reward_type :: string
  reward_amount :: "number option"
  reward_multiplier :: "number option"

record SimpleAchievement =
  ach_id :: string
  ach_name :: string
  ach_description :: string
  category :: string
  difficulty :: string
  points :: number
  requirements :: Requirements
  reward :: Reward
  ach_unlocked :: bool

subsection \<open>services/production.ts and services/market.ts: service-held state\<close>

record ClickCombo =
  count :: nat
  startTime :: number
  combo_multiplier :: number
  maxCombo :: nat
  decayRate :: number

record ProductionStats =
  stats_totalClicks :: int
  stats_totalProduced :: bigint
  averageClickRate :: number
  stats_maxCombo :: nat
  sessionProduction :: bigint
  sessionClicks :: int
  stats_sessionStartTime :: number

record TradeTransaction =
  trade_timestamp :: number
  matchsticksSold :: bigint
  trade_pricePerUnit :: number
  trade_totalRevenue :: number
  marketCondition :: string
  playerCash :: number
  trade_marketShare :: number

text \<open>
  The process state: the store \<open>gameState\<close>, the event bus \<open>gameEvents\<close>, the error handler's
  history and the private fields of the singleton services.
\<close>

record World =
  gameState :: GameState
  gameEvents :: "GameEvent list"
  errorHistory :: "string list"
  achievementList :: "SimpleAchievement list"
  clickCombo :: ClickCombo
  productionStats :: ProductionStats
  lastClickTime :: number
  recentClicks :: "number list"
  recentTrades :: "TradeTransaction list"

subsection \<open>utils/errors.ts: the error history\<close>

definition handleError :: "string \<Rightarrow> World \<Rightarrow> World" where
  "handleError message w = w\<lparr>errorHistory := take 100 (message # errorHistory w)\<rparr>"

subsection \<open>stores/gameState.ts\<close>

definition createInitialGameState :: "number \<Rightarrow> GameState" where
  "createInitialGameState now =
     \<lparr>resources = \<lparr>matchsticks = 0, money = 0, wood = 0, reputation = 0\<rparr>,
      production = \<lparr>manualRate = 1, automatedRate = 0, multipliers = [], lastUpdate = now,
        totalProduced = 0\<rparr>,
      market = \<lparr>currentPrice = 1, basePrice = 1, priceHistory = [],
        condition = Some \<lparr>priceMultiplier = 1, demandLevel = ''normal'', trend = ''stable'',
          duration = 0, description = ''Normal market conditions''\<rparr>,
        autoSellEnabled = False, autoSellThreshold = 100, totalSold = 0, totalRevenue = 0\<rparr>,
      automation = \<lparr>autoClickers = [], automation_autoSellEnabled = False,
        autoSellSettings = \<lparr>enabled = False, threshold = 100, maxPercentage = 50,
          priceThreshold = 0.5, smartSelling = False\<rparr>,
        totalMoneySpent = 0, automation_lastUpdate = now\<rparr>,
      achievements = \<lparr>unlocked = [],
        stats = \<lparr>totalUnlocked = 0, totalHidden = 0, completionPercentage = 0,
          unlockedToday = 0\<rparr>\<rparr>,
      progression = \<lparr>currentPhase = ''manual'', unlockedFeatures = [''manual_production''],
        completedTutorials = [], worldConversionProgress = 0, prestigeLevel = 0\<rparr>,
      metadata = \<lparr>version = ''1.0.0'', createdAt = now, lastSaved = now, totalPlayTime = 0,
        sessionStartTime = now, playerId = ''1'', gameSpeed = 1, debugMode = False\<rparr>\<rparr>"

definition emitEvent :: "GameEvent \<Rightarrow> World \<Rightarrow> World" where
  "emitEvent event w = w\<lparr>gameEvents := take 100 (event # gameEvents w)\<rparr>"

definition addResources :: "ResourceDelta \<Rightarrow> World \<Rightarrow> World" where
  "addResources additions w =
     (let current = gameState w; r = resources current in
      w\<lparr>gameState := current\<lparr>resources :=
        \<lparr>matchsticks =
           (if truthy (d_matchsticks additions)
            then SafeBigInt_add (matchsticks r) (or0 (d_matchsticks additions))
            else matchsticks r),
         money = money r + or0 (d_money additions),
         wood = wood r + or0 (d_wood additions),
         reputation = reputation r + or0 (d_reputation additions)\<rparr>\<rparr>\<rparr>)"

definition subtractResources :: "ResourceDelta \<Rightarrow> World \<Rightarrow> bool \<times> World" where
  "subtractResources subtractions w =
     (let current = gameState w; r = resources current in
      if truthy (d_matchsticks subtractions)
         \<and> SafeBigInt_compare (matchsticks r) (or0 (d_matchsticks subtractions)) < 0
      then (False, w)
      else if truthy (d_money subtractions) \<and> money r < or0 (d_money subtractions)
      then (False, w)
      else if truthy (d_wood subtractions) \<and> wood r < or0 (d_wood subtractions)
      then (False, w)
      else if truthy (d_reputation subtractions) \<and> reputation r < or0 (d_reputation subtractions)
      then (False, w)
      else (True, w\<lparr>gameState := current\<lparr>resources :=
        \<lparr>matchsticks =
           (if truthy (d_matchsticks subtractions)
            then SafeBigInt_subtract (matchsticks r) (or0 (d_matchsticks subtractions))
            else matchsticks r),
         money = money r - or0 (d_money subtractions),
         wood = wood r - or0 (d_wood subtractions),
         reputation = reputation r - or0 (d_reputation subtractions)\<rparr>\<rparr>\<rparr>))"

text \<open>
  The \<open>update*\<close> actions shallow-merge a partial section into the store; the partial object
  is given as the record update \<open>updates\<close> that the merge performs.
\<close>

definition updateProduction :: "number \<Rightarrow> (ProductionState \<Rightarrow> ProductionState) \<Rightarrow> World \<Rightarrow> World" where
  "updateProduction now updates w =
     (let current = gameState w in
      w\<lparr>gameState := current\<lparr>production := (updates (production current))\<lparr>lastUpdate := now\<rparr>\<rparr>\<rparr>)"

definition updateMarket :: "(MarketState \<Rightarrow> MarketState) \<Rightarrow> World \<Rightarrow> World" where
  "updateMarket updates w =
     (let current = gameState w in w\<lparr>gameState := current\<lparr>market := updates (market current)\<rparr>\<rparr>)"

definition updateAutomation :: "(AutomationState \<Rightarrow> AutomationState) \<Rightarrow> World \<Rightarrow> World" where
  "updateAutomation updates w =
     (let current = gameState w in
      w\<lparr>gameState := current\<lparr>automation := updates (automation current)\<rparr>\<rparr>)"

definition updateAchievements :: "(AchievementState \<Rightarrow> AchievementState) \<Rightarrow> World \<Rightarrow> World" where
  "updateAchievements updates w =
     (let current = gameState w in
      w\<lparr>gameState := current\<lparr>achievements := updates (achievements current)\<rparr>\<rparr>)"

definition gameActions_sellMatchsticks :: "number \<Rightarrow> bigint \<Rightarrow> World \<Rightarrow> bool \<times> World" where
  "gameActions_sellMatchsticks now amount w =
     (let current = gameState w in
      if SafeBigInt_compare (matchsticks (resources current)) amount < 0 then (False, w)
      else
        let revenue = real_of_int amount * currentPrice (market current);
            (ok, w1) = subtractResources (no_delta\<lparr>d_matchsticks := Some amount\<rparr>) w in
        if ok then
          let w2 = addResources (no_delta\<lparr>d_money := Some revenue\<rparr>) w1;
              w3 = updateMarket (\<lambda>m. m\<lparr>totalSold := SafeBigInt_add (totalSold (market current)) amount,
                      totalRevenue := totalRevenue (market current) + revenue\<rparr>) w2;
              w4 = emitEvent \<lparr>event_type = ''matchsticks_sold'', event_timestamp = now,
                      event_source = ''market_system''\<rparr> w3
          in (True, w4)
        else (False, w1))"

text \<open>
  \<open>validateAndSanitizeState\<close>.  A matchstick count is already a bigint here, so the string
  coercion does not arise.
\<close>

definition validateAndSanitizeState :: "number \<Rightarrow> GameState \<Rightarrow> GameState" where
  "validateAndSanitizeState now state =
     (let r = resources state; md = metadata state in
      state\<lparr>resources :=
          \<lparr>matchsticks = (if \<not> SafeBigInt_isSafe (matchsticks r) then 0 else matchsticks r),
           money = max 0 (money r), wood = max 0 (wood r), reputation = max 0 (reputation r)\<rparr>,
        metadata := md\<lparr>lastSaved := (if lastSaved md = 0 then now else lastSaved md),
           createdAt := (if createdAt md = 0 then now else createdAt md),
           sessionStartTime := now\<rparr>\<rparr>)"

text \<open>
  The argument of \<open>load\<close>.  Data with the keys \<open>metadata\<close>, \<open>resources\<close>, \<open>production\<close> and
  \<open>market\<close> is a full state.  Anything else is a partial update: its sections \<open>resources\<close>,
  \<open>production\<close>, \<open>market\<close> and \<open>automation\<close> are merged into the current state, and every
  other key is dropped; \<open>update_achievements\<close> is such a key.  The partial resources override
  the fields they carry; the other partial sections are given as the record update that the
  merge performs.
\<close>

record GameStateUpdate =
  update_resources :: "ResourceDelta option"
  update_production :: "(ProductionState \<Rightarrow> ProductionState) option"
  update_market :: "(MarketState \<Rightarrow> MarketState) option"
  update_automation :: "(AutomationState \<Rightarrow> AutomationState) option"
  update_achievements :: "AchievementState option"

datatype LoadData = FullState GameState | PartialUpdate GameStateUpdate

definition no_update :: GameStateUpdate where
  "no_update =
     \<lparr>update_resources = None, update_production = None, update_market = None,
      update_automation = None, update_achievements = None\<rparr>"

definition mergeResources :: "ResourceState \<Rightarrow> ResourceDelta \<Rightarrow> ResourceState" where
  "mergeResources r d =
     \<lparr>matchsticks = (case d_matchsticks d of None \<Rightarrow> matchsticks r | Some v \<Rightarrow> v),
      money = (case d_money d of None \<Rightarrow> money r | Some v \<Rightarrow> v),
      wood = (case d_wood d of None \<Rightarrow> wood r | Some v \<Rightarrow> v),
      reputation = (case d_reputation d of None \<Rightarrow> reputation r | Some v \<Rightarrow> v)\<rparr>"

definition load :: "number \<Rightarrow> LoadData \<Rightarrow> World \<Rightarrow> World" where
  "load now data w =
     (let current = gameState w;
          loaded =
            (case data of
               FullState fullState \<Rightarrow> validateAndSanitizeState now fullState
             | PartialUpdate partialData \<Rightarrow>
                 validateAndSanitizeState now
                   (current\<lparr>resources :=
                        (case update_resources partialData of
                           None \<Rightarrow> resources current
                         | Some d \<Rightarrow> mergeResources (resources current) d),
                      production :=
                        (case update_production partialData of
                           None \<Rightarrow> production current | Some f \<Rightarrow> f (production current)),
                      market :=
                        (case update_market partialData of
                           None \<Rightarrow> market current | Some f \<Rightarrow> f (market current)),
                      automation :=
                        (case update_automation partialData of
                           None \<Rightarrow> automation current | Some f \<Rightarrow> f (automation current))\<rparr>))
      in emitEvent \<lparr>event_type = ''state_loaded'', event_timestamp = now,
           event_source = ''game_system''\<rparr> (w\<lparr>gameState := loaded\<rparr>))"

subsection \<open>services/achievements.ts: AchievementService\<close>

definition mkAchievement ::
  "string \<Rightarrow> string \<Rightarrow> string \<Rightarrow> string \<Rightarrow> string \<Rightarrow> number \<Rightarrow> Requirements \<Rightarrow> number
    \<Rightarrow> SimpleAchievement" where
  "mkAchievement i n d c df p rq amount =
     \<lparr>ach_id = i, ach_name = n, ach_description = d, category = c, difficulty = df, points = p,
      requirements = rq,
      reward = \<lparr>reward_type = ''money'', reward_amount = Some amount, reward_multiplier = None\<rparr>,
      ach_unlocked = False\<rparr>"

definition resource_total :: "bigint \<Rightarrow> Requirements" where
  "resource_total n =
     \<lparr>req_type = ''resource_total'', req_resource = Some ''matchsticks'', req_amount = Some n,
      req_stat = None, req_value = None, req_phase = None\<rparr>"

definition stat_threshold :: "string \<Rightarrow> number \<Rightarrow> Requirements" where
  "stat_threshold s v =
     \<lparr>req_type = ''stat_threshold'', req_resource = None, req_amount = None,
      req_stat = Some s, req_value = Some v, req_phase = None\<rparr>"

definition phase_reached :: "string \<Rightarrow> Requirements" where
  "phase_reached ph =
     \<lparr>req_type = ''phase_reached'', req_resource = None, req_amount = None,
      req_stat = None, req_value = None, req_phase = Some ph\<rparr>"

definition initializeAchievements :: "SimpleAchievement list" where
  "initializeAchievements =
     [mkAchievement ''first_match'' ''First Light'' ''Create your very first matchstick''
        ''production'' ''easy'' 5 (resource_total 1) 10,
      mkAchievement ''first_hundred'' ''Century Maker'' ''Produce 100 matchsticks''
        ''production'' ''easy'' 10 (resource_total 100) 50,
      mkAchievement ''thousand_matches'' ''Master Craftsman'' ''Produce 1,000 matchsticks''
        ''production'' ''medium'' 25 (resource_total 1000) 200,
      mkAchievement ''first_sale'' ''First Sale'' ''Make your first sale''
        ''trading'' ''easy'' 5 (stat_threshold ''totalSold'' 1) 25,
      mkAchievement ''merchant_apprentice'' ''Merchant Apprentice'' ''Earn $100 in total revenue''
        ''trading'' ''easy'' 10 (stat_threshold ''totalRevenue'' 100) 50,
      mkAchievement ''bulk_trader'' ''Bulk Trader'' ''Sell 1,000 matchsticks in total''
        ''trading'' ''medium'' 20 (stat_threshold ''totalSold'' 1000) 100,
      mkAchievement ''automation_investor'' ''Automation Investor'' ''Spend $500 on automation''
        ''automation'' ''medium'' 15 (stat_threshold ''totalAutomationSpent'' 500) 75,
      mkAchievement ''clicker_collector'' ''Clicker Collector'' ''Own 10 auto-clickers''
        ''automation'' ''medium'' 20 (stat_threshold ''totalAutoClickers'' 10) 100,
      mkAchievement ''automation_phase'' ''Industrial Revolution'' ''Reach the automation phase''
        ''progression'' ''medium'' 30 (phase_reached ''automation'') 150]"

definition isAchievementMet :: "SimpleAchievement \<Rightarrow> GameState \<Rightarrow> bool" where
  "isAchievementMet achievement state =
     (let req = requirements achievement in
      if req_type req = ''resource_total'' then
        (if req_resource req = Some ''matchsticks''
         then totalProduced (production state) \<ge> or0 (req_amount req)
         else False)
      else if req_type req = ''stat_threshold'' then
        (if req_stat req = Some ''totalSold''
         then real_of_int (totalSold (market state)) \<ge> or0 (req_value req)
         else if req_stat req = Some ''totalRevenue''
         then totalRevenue (market state) \<ge> or0 (req_value req)
         else if req_stat req = Some ''totalAutomationSpent''
         then totalMoneySpent (automation state) \<ge> or0 (req_value req)
         else if req_stat req = Some ''totalAutoClickers''
         then real (sum_list (map level (autoClickers (automation state)))) \<ge> or0 (req_value req)
         else False)
      else if req_type req = ''phase_reached'' then
        Some (currentPhase (progression state)) = req_phase req
      else False)"

definition applyReward :: "Reward \<Rightarrow> World \<Rightarrow> World" where
  "applyReward rw w =
     (if reward_type rw = ''money'' \<and> truthy (reward_amount rw)
      then addResources (no_delta\<lparr>d_money := Some (or0 (reward_amount rw))\<rparr>) w
      else w)"

text \<open>
  The body of the loop of \<open>checkAchievements\<close> for a rule that is met: \<open>state\<close> is the
  snapshot taken before the loop, so the unlocked-id list and the total written to the store
  are computed from the snapshot at every iteration.
\<close>

definition unlockStep :: "number \<Rightarrow> GameState \<Rightarrow> SimpleAchievement \<Rightarrow> World \<Rightarrow> World" where
  "unlockStep now state achievement w =
     (let w1 = applyReward (reward achievement) w;
          w2 = updateAchievements
                 (\<lambda>a. a\<lparr>unlocked := unlocked (achievements state) @ [ach_id achievement],
                        stats := (stats (achievements state))
                          \<lparr>totalUnlocked := totalUnlocked (stats (achievements state)) + 1\<rparr>\<rparr>) w1
      in emitEvent \<lparr>event_type = ''achievement_unlocked'', event_timestamp = now,
           event_source = ''achievement_service''\<rparr> w2)"

text \<open>
  The loop over the rule table.  It returns the table with the flags it has set, the rules
  unlocked by this call in table order, and the process state.
\<close>

fun checkLoop ::
  "number \<Rightarrow> GameState \<Rightarrow> SimpleAchievement list \<Rightarrow> World
    \<Rightarrow> SimpleAchievement list \<times> SimpleAchievement list \<times> World" where
  "checkLoop now state [] w = ([], [], w)"
| "checkLoop now state (achievement # rest) w =
     (if ach_unlocked achievement then
        (case checkLoop now state rest w of
           (table, newlyUnlocked, w') \<Rightarrow> (achievement # table, newlyUnlocked, w'))
      else if isAchievementMet achievement state then
        (let achievement' = achievement\<lparr>ach_unlocked := True\<rparr> in
         case checkLoop now state rest (unlockStep now state achievement w) of
           (table, newlyUnlocked, w') \<Rightarrow> (achievement' # table, achievement' # newlyUnlocked, w'))
      else
        (case checkLoop now state rest w of
           (table, newlyUnlocked, w') \<Rightarrow> (achievement # table, newlyUnlocked, w')))"

definition checkAchievements :: "number \<Rightarrow> World \<Rightarrow> SimpleAchievement list \<times> World" where
  "checkAchievements now w =
     (case checkLoop now (gameState w) (achievementList w) w of
        (table, newlyUnlocked, w') \<Rightarrow> (newlyUnlocked, w'\<lparr>achievementList := table\<rparr>))"

definition resetAchievements :: "World \<Rightarrow> World" where
  "resetAchievements w =
     w\<lparr>achievementList := map (\<lambda>a. a\<lparr>ach_unlocked := False\<rparr>) (achievementList w)\<rparr>"

text \<open>
  The flags are written by \<open>checkAchievements\<close>, by \<open>resetAchievements\<close> and by
  \<open>unlockAchievementById\<close> (which pays the reward and appends the id as the loop does, and
  is not embedded); none of them reads the persisted list.  The tests of the service call an
  operation \<open>syncWithGameState\<close>, which the class does not have.
\<close>

subsection \<open>services/production.ts: ProductionService\<close>

record ProduceResult =
  produced :: bigint
  comboMultiplier :: number
  totalMultiplier :: number
  comboCount :: nat

definition updateClickStats :: "int \<Rightarrow> number \<Rightarrow> World \<Rightarrow> World" where
  "updateClickStats clickCount currentTime w =
     w\<lparr>productionStats := (productionStats w)
          \<lparr>stats_totalClicks := stats_totalClicks (productionStats w) + clickCount,
           sessionClicks := sessionClicks (productionStats w) + clickCount\<rparr>,
       lastClickTime := currentTime,
       recentClicks := filter (\<lambda>time. time > currentTime - 10000) (recentClicks w @ [currentTime])\<rparr>"

definition updateClickCombo :: "number \<Rightarrow> World \<Rightarrow> number \<times> World" where
  "updateClickCombo currentTime w =
     (let timeSinceLastClick = currentTime - lastClickTime w;
          comboDecayTime = 2000;
          c = clickCombo w;
          c' = (if timeSinceLastClick > comboDecayTime
                then c\<lparr>count := 1, startTime := currentTime, combo_multiplier := 1\<rparr>
                else let n = min (count c + 1) (maxCombo c) in
                     c\<lparr>count := n, combo_multiplier := 1 + (real n - 1) * 0.01\<rparr>);
          st = productionStats w
      in (combo_multiplier c',
          w\<lparr>clickCombo := c',
            productionStats := st\<lparr>stats_maxCombo := max (stats_maxCombo st) (count c')\<rparr>\<rparr>))"

definition calculateTotalMultiplier :: "number \<Rightarrow> World \<Rightarrow> number" where
  "calculateTotalMultiplier comboMult w =
     fold (\<lambda>(i, m) total. if m > 0 then total * m else total)
       (multipliers (production (gameState w))) comboMult"

text \<open>
  \<open>produceMatchsticks\<close>.  The click count is a whole number (\<open>BigInt(clickCount)\<close>); haptic
  feedback is a browser effect and is left out.
\<close>

definition produceMatchsticks :: "number \<Rightarrow> int \<Rightarrow> World \<Rightarrow> ProduceResult \<times> World" where
  "produceMatchsticks currentTime clickCount w =
     (let currentState = gameState w;
          w1 = updateClickStats clickCount currentTime w;
          baseProduction = manualRate (production currentState) * real_of_int clickCount;
          (comboMult, w2) = updateClickCombo currentTime w1;
          totalMult = calculateTotalMultiplier comboMult w2;
          finalProduction = \<lfloor>baseProduction * totalMult\<rfloor>;
          actualProduction = (if finalProduction > clickCount then finalProduction else clickCount);
          w3 = addResources (no_delta\<lparr>d_matchsticks := Some actualProduction\<rparr>) w2;
          w4 = updateProduction currentTime
                 (\<lambda>p. p\<lparr>totalProduced :=
                    SafeBigInt_add (totalProduced (production currentState)) actualProduction\<rparr>) w3;
          st = productionStats w4;
          w5 = w4\<lparr>productionStats := st
                 \<lparr>stats_totalProduced := SafeBigInt_add (stats_totalProduced st) actualProduction,
                  sessionProduction := SafeBigInt_add (sessionProduction st) actualProduction\<rparr>\<rparr>;
          w6 = emitEvent \<lparr>event_type = ''manual_production'', event_timestamp = currentTime,
                 event_source = ''production_service''\<rparr> w5;
          (newlyUnlocked, w7) = checkAchievements currentTime w6
      in (\<lparr>produced = actualProduction, comboMultiplier = comboMult, totalMultiplier = totalMult,
           comboCount = count (clickCombo w7)\<rparr>, w7))"

definition resetCombo :: "World \<Rightarrow> World" where
  "resetCombo w = w\<lparr>clickCombo := (clickCombo w)\<lparr>count := 0, startTime := 0, combo_multiplier := 1\<rparr>\<rparr>"

text \<open>The service fields as the constructors leave them, with a fresh store.\<close>

definition initialWorld :: "number \<Rightarrow> World" where
  "initialWorld now =
     \<lparr>gameState = createInitialGameState now, gameEvents = [], errorHistory = [],
      achievementList = initializeAchievements,
      clickCombo = \<lparr>count = 0, startTime = 0, combo_multiplier = 1, maxCombo = 50,
        decayRate = 0.5\<rparr>,
      productionStats = \<lparr>stats_totalClicks = 0, stats_totalProduced = 0, averageClickRate = 0,
        stats_maxCombo = 0, sessionProduction = 0, sessionClicks = 0,
        stats_sessionStartTime = now\<rparr>,
      lastClickTime = 0, recentClicks = [], recentTrades = []\<rparr>"

subsection \<open>services/market.ts: MarketService\<close>

record SellResult =
  success :: bool
  revenue :: number
  pricePerUnit :: number
  remainingMatchsticks :: bigint
  marketShare :: number
  transaction :: "TradeTransaction option"

definition getCurrentPrice :: "World \<Rightarrow> number" where
  "getCurrentPrice w = currentPrice (market (gameState w))"

definition calculateMarketImpact :: "bigint \<Rightarrow> number" where
  "calculateMarketImpact amount =
     (let amountNumber = real_of_int amount; impactThreshold = 1000 in
      if amountNumber \<le> impactThreshold then 1
      else let excessAmount = amountNumber - impactThreshold;
               impactFactor = min 0.2 (excessAmount / 10000)
           in 1 - impactFactor)"

definition updatePriceAfterTrade :: "bigint \<Rightarrow> number \<Rightarrow> World \<Rightarrow> World" where
  "updatePriceAfterTrade amount p w =
     (let amountNumber = real_of_int amount;
          priceImpact = min 0.05 (amountNumber / 5000);
          newPrice = p * (1 - priceImpact)
      in updateMarket (\<lambda>m. m\<lparr>currentPrice := max 0.1 newPrice\<rparr>) w)"

definition calculateMarketShare :: "bigint \<Rightarrow> number" where
  "calculateMarketShare sold = min 100 ((real_of_int sold / 1000000) * 100)"

definition conditionLabel :: "GameState \<Rightarrow> string" where
  "conditionLabel state =
     (case condition (market state) of
        None \<Rightarrow> ''Normal''
      | Some c \<Rightarrow> if description c = [] then ''Normal'' else description c)"

definition sellFailure :: "World \<Rightarrow> SellResult" where
  "sellFailure w =
     \<lparr>success = False, revenue = 0, pricePerUnit = getCurrentPrice w,
      remainingMatchsticks = matchsticks (resources (gameState w)), marketShare = 0,
      transaction = None\<rparr>"

text \<open>
  \<open>sellMatchsticks\<close>.  The two validation errors are thrown and caught by the method's own
  handler, which records the error and returns the failure result.
\<close>

definition sellMatchsticks :: "number \<Rightarrow> bigint \<Rightarrow> World \<Rightarrow> SellResult \<times> World" where
  "sellMatchsticks now amount w =
     (let currentState = gameState w;
          availableMatchsticks = matchsticks (resources currentState) in
      if amount \<le> 0 \<or> amount > availableMatchsticks then
        (let w' = handleError ''Failed to sell matchsticks'' w in (sellFailure w', w'))
      else
        let price0 = getCurrentPrice w;
            marketImpactMultiplier = calculateMarketImpact amount;
            effectivePrice = price0 * marketImpactMultiplier;
            rev = real_of_int amount * effectivePrice;
            (ok, w1) = gameActions_sellMatchsticks now amount w in
        if \<not> ok then
          (\<lparr>success = False, revenue = 0, pricePerUnit = price0,
            remainingMatchsticks = availableMatchsticks, marketShare = 0, transaction = None\<rparr>, w1)
        else
          let w2 = addResources (no_delta\<lparr>d_money := Some rev\<rparr>) w1;
              updatedState = gameState w2;
              newTotalSold = SafeBigInt_add (totalSold (market updatedState)) amount;
              newTotalRevenue = totalRevenue (market updatedState) + rev;
              w3 = updateMarket (\<lambda>m. m\<lparr>totalSold := newTotalSold,
                     totalRevenue := newTotalRevenue\<rparr>) w2;
              trade = \<lparr>trade_timestamp = now, matchsticksSold = amount,
                     trade_pricePerUnit = effectivePrice, trade_totalRevenue = rev,
                     marketCondition = conditionLabel currentState,
                     playerCash = money (resources updatedState),
                     trade_marketShare = calculateMarketShare newTotalSold\<rparr>;
              w4 = w3\<lparr>recentTrades := take 50 (trade # recentTrades w3)\<rparr>;
              w5 = updatePriceAfterTrade amount effectivePrice w4;
              w6 = emitEvent \<lparr>event_type = ''trade_executed'', event_timestamp = now,
                     event_source = ''market_service''\<rparr> w5;
              (newlyUnlocked, w7) = checkAchievements now w6
          in (\<lparr>success = True, revenue = rev, pricePerUnit = effectivePrice,
               remainingMatchsticks = matchsticks (resources updatedState),
               marketShare = trade_marketShare trade, transaction = Some trade\<rparr>, w7))"

subsection \<open>services/automation.ts: AutomationService, auto-clicker purchase\<close>

record UnlockRequirement =
  unlock_totalProduced :: "bigint option"
  unlock_totalRevenue :: "number option"
  unlock_autoClickersOwned :: "number option"
  unlock_gamePhase :: "string option"

record AutoClickerConfig =
  config_id :: string
  config_name :: string
  config_description :: string
  baseCost :: number
  costMultiplier :: number
  baseClicksPerSecond :: number
  maxLevel :: nat
  unlockRequirement :: "UnlockRequirement option"

definition no_requirement :: UnlockRequirement where
  "no_requirement =
     \<lparr>unlock_totalProduced = None, unlock_totalRevenue = None, unlock_autoClickersOwned = None,
      unlock_gamePhase = None\<rparr>"

text \<open>
  The price of an auto-clicker is \<open>Math.floor(baseCost * Math.pow(costMultiplier, level))\<close>
  in IEEE double arithmetic, and the floor of the rounded product can differ from the floor
  of the exact one.  A double is a real with a significand of 53 bits; the result of a
  multiplication and the value of a decimal literal are the exact value rounded to the
  nearest double, ties to even (the range of the exponent is not modelled).
  \<open>binaryExponent x\<close> is the \<open>e\<close> with \<open>2 ^ e \<le> x < 2 ^ (e + 1)\<close> for a positive \<open>x\<close>.
  \<open>Math.pow\<close> is implementation-approximated; it is the parameter \<open>pow\<close>.
\<close>

fun ilog2 :: "nat \<Rightarrow> nat" where
  "ilog2 n = (if n < 2 then 0 else Suc (ilog2 (n div 2)))"

declare ilog2.simps [simp del]

definition binaryExponent :: "real \<Rightarrow> int" where
  "binaryExponent x =
     (if 1 \<le> x then int (ilog2 (nat \<lfloor>x\<rfloor>))
      else let j = ilog2 (nat \<lfloor>1 / x\<rfloor>) in if x * 2 ^ j = 1 then - int j else - int j - 1)"

definition roundHalfEven :: "real \<Rightarrow> int" where
  "roundHalfEven q =
     (let f = \<lfloor>q\<rfloor>; d = q - of_int f in
      if d < 1 / 2 then f else if d > 1 / 2 then f + 1 else if even f then f else f + 1)"

definition roundToDouble :: "real \<Rightarrow> number" where
  "roundToDouble x =
     (if x = 0 then 0
      else let a = \<bar>x\<bar>; ulp = 2 powi (binaryExponent a - 52) in
           sgn x * (of_int (roundHalfEven (a / ulp)) * ulp))"

definition basicClicker :: AutoClickerConfig where
  "basicClicker =
     \<lparr>config_id = ''basic_clicker'', config_name = ''Basic Auto-Clicker'',
      config_description = ''Automatically clicks once per second'',
      baseCost = 50, costMultiplier = roundToDouble 1.15, baseClicksPerSecond = 1, maxLevel = 50,
      unlockRequirement = None\<rparr>"

definition fastClicker :: AutoClickerConfig where
  "fastClicker =
     \<lparr>config_id = ''fast_clicker'', config_name = ''Fast Auto-Clicker'',
      config_description = ''Clicks 3 times per second with improved efficiency'',
      baseCost = 250, costMultiplier = roundToDouble 1.2, baseClicksPerSecond = 3, maxLevel = 25,
      unlockRequirement = Some (no_requirement\<lparr>unlock_totalProduced := Some 1000\<rparr>)\<rparr>"

definition turboClicker :: AutoClickerConfig where
  "turboClicker =
     \<lparr>config_id = ''turbo_clicker'', config_name = ''Turbo Auto-Clicker'',
      config_description = ''High-speed clicking with 8 clicks per second'',
      baseCost = 1000, costMultiplier = roundToDouble 1.25, baseClicksPerSecond = 8,
      maxLevel = 10,
      unlockRequirement = Some (no_requirement\<lparr>unlock_totalProduced := Some 10000,
        unlock_totalRevenue := Some 1000\<rparr>)\<rparr>"

definition quantumClicker :: AutoClickerConfig where
  "quantumClicker =
     \<lparr>config_id = ''quantum_clicker'', config_name = ''Quantum Auto-Clicker'',
      config_description = ''Theoretical physics-powered clicking at 20/second'',
      baseCost = 5000, costMultiplier = roundToDouble 1.3, baseClicksPerSecond = 20,
      maxLevel = 5,
      unlockRequirement = Some (no_requirement\<lparr>unlock_totalProduced := Some 100000,
        unlock_totalRevenue := Some 10000\<rparr>)\<rparr>"

definition autoClickerConfigs :: "AutoClickerConfig list" where
  "autoClickerConfigs = [basicClicker, fastClicker, turboClicker, quantumClicker]"

record PurchaseResult =
  purchase_success :: bool
  cost :: "number option"
  newLevel :: "nat option"
  error :: "string option"

definition purchaseFailure :: "string \<Rightarrow> PurchaseResult" where
  "purchaseFailure e = \<lparr>purchase_success = False, cost = None, newLevel = None, error = Some e\<rparr>"

definition calculateAutoClickerCost ::
  "(number \<Rightarrow> nat \<Rightarrow> number) \<Rightarrow> AutoClickerConfig \<Rightarrow> nat \<Rightarrow> number" where
  "calculateAutoClickerCost pow config currentLevel =
     of_int \<lfloor>roundToDouble (baseCost config * pow (costMultiplier config) currentLevel)\<rfloor>"

definition checkUnlockRequirement :: "UnlockRequirement option \<Rightarrow> GameState \<Rightarrow> bool" where
  "checkUnlockRequirement requirement state =
     (case requirement of
        None \<Rightarrow> True
      | Some rq \<Rightarrow>
          if truthy (unlock_totalProduced rq)
             \<and> totalProduced (production state) < or0 (unlock_totalProduced rq) then False
          else if truthy (unlock_totalRevenue rq)
             \<and> totalRevenue (market state) < or0 (unlock_totalRevenue rq) then False
          else if truthy (unlock_autoClickersOwned rq)
             \<and> real (sum_list (map level (autoClickers (automation state))))
                 < or0 (unlock_autoClickersOwned rq) then False
          else (case unlock_gamePhase rq of
                  None \<Rightarrow> True
                | Some ph \<Rightarrow> \<not> (ph \<noteq> [] \<and> currentPhase (progression state) \<noteq> ph)))"

text \<open>\<open>Array.prototype.findIndex\<close>: the index of the first element that satisfies \<open>p\<close>.\<close>

fun findIndex :: "('a \<Rightarrow> bool) \<Rightarrow> 'a list \<Rightarrow> nat option" where
  "findIndex p [] = None"
| "findIndex p (x # xs) = (if p x then Some 0 else map_option Suc (findIndex p xs))"

definition purchaseAutoClicker ::
  "(number \<Rightarrow> nat \<Rightarrow> number) \<Rightarrow> number \<Rightarrow> string \<Rightarrow> World \<Rightarrow> PurchaseResult \<times> World" where
  "purchaseAutoClicker pow now clickerId w =
     (case find (\<lambda>c. config_id c = clickerId) autoClickerConfigs of
        None \<Rightarrow> (purchaseFailure ''Auto-clicker not found'', w)
      | Some config \<Rightarrow>
          let currentState = gameState w;
              existingClicker = find (\<lambda>c. clicker_id c = clickerId)
                                  (autoClickers (automation currentState));
              currentLevel = (case existingClicker of None \<Rightarrow> 0 | Some c \<Rightarrow> level c) in
          if currentLevel \<ge> maxLevel config then (purchaseFailure ''Maximum level reached'', w)
          else if \<not> checkUnlockRequirement (unlockRequirement config) currentState
          then (purchaseFailure ''Unlock requirements not met'', w)
          else
            let c = calculateAutoClickerCost pow config currentLevel in
            if money (resources currentState) < c then (purchaseFailure ''Insufficient funds'', w)
            else
              let w1 = addResources (no_delta\<lparr>d_money := Some (- c)\<rparr>) w;
                  lvl = currentLevel + 1;
                  clickers = autoClickers (automation currentState);
                  updatedClickers =
                    (case existingClicker of
                       Some existing \<Rightarrow>
                         (case findIndex (\<lambda>c. clicker_id c = clickerId) clickers of
                            Some index \<Rightarrow> clickers[index := existing\<lparr>level := lvl\<rparr>]
                          | None \<Rightarrow> clickers)
                     | None \<Rightarrow>
                         clickers @ [\<lparr>clicker_id = clickerId, level = lvl, isActive = True,
                           totalClicks = 0, efficiency = 1\<rparr>]);
                  w2 = updateAutomation (\<lambda>a. a\<lparr>autoClickers := updatedClickers\<rparr>) w1;
                  newTotalSpent = totalMoneySpent (automation currentState) + c;
                  w3 = updateAutomation (\<lambda>a. a\<lparr>totalMoneySpent := newTotalSpent\<rparr>) w2;
                  w4 = emitEvent \<lparr>event_type = ''upgrade_purchased'', event_timestamp = now,
                         event_source = ''automation_service''\<rparr> w3;
                  (newlyUnlocked, w5) = checkAchievements now w4
              in (\<lparr>purchase_success = True, cost = Some c, newLevel = Some lvl, error = None\<rparr>,
                  w5))"

subsection \<open>services/storage.ts: GameStorageService\<close>

text \<open>
  A JavaScript value as the storage service sees it, and a JSON document.  \<open>JSON.stringify\<close>
  and \<open>JSON.parse\<close> are platform functions: their text layer is taken as the identity on
  JSON documents, and what is modelled is the walk that calls the replacer and the reviver.
  A property whose value is \<open>undefined\<close> is an absent property.  Objects keep their keys in
  order and are assumed to have no repeated key.
\<close>

datatype jsval =
    VNull
  | VBool bool
  | VNumber number
  | VString string
  | VBigInt bigint
  | VArray "jsval list"
  | VObject "(string \<times> jsval) list"

datatype json =
    JNull
  | JBool bool
  | JNumber number
  | JString string
  | JArray "json list"
  | JObject "(string \<times> json) list"

datatype js_error = TypeError | SyntaxError | RangeError

text \<open>\<open>bigint.toString()\<close>: decimal digits, with a minus sign for a negative value.\<close>

definition digitChar :: "nat \<Rightarrow> char" where
  "digitChar d = ''0123456789'' ! d"

fun natToString :: "nat \<Rightarrow> string" where
  "natToString n = (if n < 10 then [digitChar n] else natToString (n div 10) @ [digitChar (n mod 10)])"

declare natToString.simps [simp del]

definition bigintToString :: "bigint \<Rightarrow> string" where
  "bigintToString b = (if b < 0 then CHR ''-'' # natToString (nat (- b)) else natToString (nat b))"

text \<open>
  \<open>BigInt(x)\<close>.  A string is read as a decimal literal with an optional sign, the empty
  string as zero; a whole number and a boolean convert; \<open>null\<close> and \<open>undefined\<close> are a
  TypeError.  Surrounding white space, the radix prefixes of string literals and the string
  conversion of arrays and objects are not modelled: these arguments are reported as a
  SyntaxError.
\<close>

definition digitValue :: "char \<Rightarrow> nat option" where
  "digitValue c =
     (let n = (of_char c :: nat) in if 48 \<le> n \<and> n \<le> 57 then Some (n - 48) else None)"

fun parseDigits :: "nat \<Rightarrow> string \<Rightarrow> nat option" where
  "parseDigits acc [] = Some acc"
| "parseDigits acc (c # cs) =
     (case digitValue c of None \<Rightarrow> None | Some d \<Rightarrow> parseDigits (10 * acc + d) cs)"

definition stringToBigInt :: "string \<Rightarrow> bigint option" where
  "stringToBigInt s =
     (case s of
        [] \<Rightarrow> Some 0
      | c # cs \<Rightarrow>
          if c = CHR ''-'' then (if cs = [] then None else map_option (\<lambda>n. - int n) (parseDigits 0 cs))
          else if c = CHR ''+'' then (if cs = [] then None else map_option int (parseDigits 0 cs))
          else map_option int (parseDigits 0 s))"

definition BigInt :: "jsval option \<Rightarrow> js_error + bigint" where
  "BigInt x =
     (case x of
        None \<Rightarrow> Inl TypeError
      | Some VNull \<Rightarrow> Inl TypeError
      | Some (VBool b) \<Rightarrow> Inr (if b then 1 else 0)
      | Some (VNumber n) \<Rightarrow> (if n = of_int \<lfloor>n\<rfloor> then Inr \<lfloor>n\<rfloor> else Inl RangeError)
      | Some (VString s) \<Rightarrow> (case stringToBigInt s of None \<Rightarrow> Inl SyntaxError | Some b \<Rightarrow> Inr b)
      | Some (VBigInt b) \<Rightarrow> Inr b
      | Some (VArray xs) \<Rightarrow> Inl SyntaxError
      | Some (VObject ps) \<Rightarrow> Inl SyntaxError)"

text \<open>Property access \<open>value.key\<close>; \<open>None\<close> is \<open>undefined\<close>.\<close>

definition getProp :: "jsval \<Rightarrow> string \<Rightarrow> jsval option" where
  "getProp v key = (case v of VObject ps \<Rightarrow> map_of ps key | _ \<Rightarrow> None)"

definition bigIntReplacer :: "string \<Rightarrow> jsval \<Rightarrow> jsval" where
  "bigIntReplacer key v =
     (case v of
        VBigInt b \<Rightarrow> VObject [(''__type'', VString ''bigint''), (''value'', VString (bigintToString b))]
      | _ \<Rightarrow> v)"

definition bigIntReviver :: "string \<Rightarrow> jsval \<Rightarrow> js_error + jsval" where
  "bigIntReviver key v =
     (if getProp v ''__type'' = Some (VString ''bigint'')
      then (case BigInt (getProp v ''value'') of Inl e \<Rightarrow> Inl e | Inr b \<Rightarrow> Inr (VBigInt b))
      else Inr v)"

text \<open>
  \<open>JSON.stringify(value, this.bigIntReplacer)\<close>: the replacer is called on every property
  value on the way down.  It turns a bigint into an object of two strings, which it leaves
  unchanged, and leaves every other value as it is, so the walk is structural.  The
  replacer ignores its key; array elements are passed the empty key.  A bigint that
  reaches the serialiser itself is a TypeError.
\<close>

fun applyReplacer :: "string \<Rightarrow> jsval \<Rightarrow> jsval"
  and applyReplacerElements :: "jsval list \<Rightarrow> jsval list"
  and applyReplacerProperties :: "(string \<times> jsval) list \<Rightarrow> (string \<times> jsval) list" where
  "applyReplacer key (VArray xs) = VArray (applyReplacerElements xs)"
| "applyReplacer key (VObject ps) = VObject (applyReplacerProperties ps)"
| "applyReplacer key VNull = bigIntReplacer key VNull"
| "applyReplacer key (VBool b) = bigIntReplacer key (VBool b)"
| "applyReplacer key (VNumber n) = bigIntReplacer key (VNumber n)"
| "applyReplacer key (VString s) = bigIntReplacer key (VString s)"
| "applyReplacer key (VBigInt b) = bigIntReplacer key (VBigInt b)"
| "applyReplacerElements [] = []"
| "applyReplacerElements (x # xs) = applyReplacer [] x # applyReplacerElements xs"
| "applyReplacerProperties [] = []"
| "applyReplacerProperties (p # ps) = (fst p, applyReplacer (fst p) (snd p)) # applyReplacerProperties ps"

fun toJson :: "jsval \<Rightarrow> js_error + json"
  and toJsonElements :: "jsval list \<Rightarrow> js_error + json list"
  and toJsonProperties :: "(string \<times> jsval) list \<Rightarrow> js_error + (string \<times> json) list" where
  "toJson VNull = Inr JNull"
| "toJson (VBool b) = Inr (JBool b)"
| "toJson (VNumber n) = Inr (JNumber n)"
| "toJson (VString s) = Inr (JString s)"
| "toJson (VBigInt b) = Inl TypeError"
| "toJson (VArray xs) = (case toJsonElements xs of Inl e \<Rightarrow> Inl e | Inr js \<Rightarrow> Inr (JArray js))"
| "toJson (VObject ps) = (case toJsonProperties ps of Inl e \<Rightarrow> Inl e | Inr qs \<Rightarrow> Inr (JObject qs))"
| "toJsonElements [] = Inr []"
| "toJsonElements (x # xs) =
     (case toJson x of
        Inl e \<Rightarrow> Inl e
      | Inr j \<Rightarrow> (case toJsonElements xs of Inl e \<Rightarrow> Inl e | Inr js \<Rightarrow> Inr (j # js)))"
| "toJsonProperties [] = Inr []"
| "toJsonProperties (p # ps) =
     (case toJson (snd p) of
        Inl e \<Rightarrow> Inl e
      | Inr j \<Rightarrow> (case toJsonProperties ps of Inl e \<Rightarrow> Inl e | Inr qs \<Rightarrow> Inr ((fst p, j) # qs)))"

definition stringify :: "jsval \<Rightarrow> js_error + json" where
  "stringify v = toJson (applyReplacer [] v)"

text \<open>
  \<open>JSON.parse(text, this.bigIntReviver)\<close>: the reviver is called bottom-up, on the elements
  and properties of a value before the value itself.
\<close>

fun parse :: "string \<Rightarrow> json \<Rightarrow> js_error + jsval"
  and parseElements :: "json list \<Rightarrow> js_error + jsval list"
  and parseProperties :: "(string \<times> json) list \<Rightarrow> js_error + (string \<times> jsval) list" where
  "parse key JNull = bigIntReviver key VNull"
| "parse key (JBool b) = bigIntReviver key (VBool b)"
| "parse key (JNumber n) = bigIntReviver key (VNumber n)"
| "parse key (JString s) = bigIntReviver key (VString s)"
| "parse key (JArray js) =
     (case parseElements js of Inl e \<Rightarrow> Inl e | Inr xs \<Rightarrow> bigIntReviver key (VArray xs))"
| "parse key (JObject qs) =
     (case parseProperties qs of Inl e \<Rightarrow> Inl e | Inr ps \<Rightarrow> bigIntReviver key (VObject ps))"
| "parseElements [] = Inr []"
| "parseElements (j # js) =
     (case parse [] j of
        Inl e \<Rightarrow> Inl e
      | Inr x \<Rightarrow> (case parseElements js of Inl e \<Rightarrow> Inl e | Inr xs \<Rightarrow> Inr (x # xs)))"
| "parseProperties [] = Inr []"
| "parseProperties (q # qs) =
     (case parse (fst q) (snd q) of
        Inl e \<Rightarrow> Inl e
      | Inr x \<Rightarrow> (case parseProperties qs of Inl e \<Rightarrow> Inl e | Inr ps \<Rightarrow> Inr ((fst q, x) # ps)))"

definition sanitizeGameState :: "jsval \<Rightarrow> js_error + jsval" where
  "sanitizeGameState state =
     (case stringify state of Inl e \<Rightarrow> Inl e | Inr j \<Rightarrow> parse [] j)"

text \<open>
  \<open>createChecksum\<close>.  The digest of the serialised document (its text, UTF-8 encoding and
  SHA-256) is the platform's; it is the parameter \<open>digest\<close>.  The hexadecimal rendering of
  the bytes is the code's.
\<close>

definition hexDigit :: "nat \<Rightarrow> char" where
  "hexDigit d = ''0123456789abcdef'' ! d"

fun toString16 :: "nat \<Rightarrow> string" where
  "toString16 n = (if n < 16 then [hexDigit n] else toString16 (n div 16) @ [hexDigit (n mod 16)])"

declare toString16.simps [simp del]

definition padStart2 :: "string \<Rightarrow> string" where
  "padStart2 s = replicate (2 - length s) (CHR ''0'') @ s"

definition createChecksum :: "(json \<Rightarrow> 8 word list) \<Rightarrow> jsval \<Rightarrow> js_error + string" where
  "createChecksum digest state =
     (case stringify state of
        Inl e \<Rightarrow> Inl e
      | Inr dat \<Rightarrow> Inr (concat (map (\<lambda>b. padStart2 (toString16 (unat b))) (digest dat))))"

record GameSave =
  save_id :: string
  save_name :: string
  save_gameState :: jsval
  save_timestamp :: number
  save_version :: "jsval option"
  checksum :: "string option"
  isAutoSave :: bool

text \<open>
  The Dexie table is an external store.  \<open>saveGame\<close> is modelled up to the record it puts
  (\<open>saveId\<close> and \<open>saveName\<close> are the generated id and the chosen name), and \<open>loadGame\<close> from
  the result of the lookup, \<open>None\<close> when the id is unknown.  The analytics events are left
  out, but not the property reads \<open>gameState.metadata.version\<close> and
  \<open>gameState.progression.currentPhase\<close>, which throw a TypeError on a state without these
  sections and make the call fail.  \<open>loadGame\<close> returns the state or \<open>None\<close> for \<open>null\<close>,
  with the errors it reports.
\<close>

definition notNullish :: "jsval option \<Rightarrow> bool" where
  "notNullish x = (case x of None \<Rightarrow> False | Some VNull \<Rightarrow> False | Some _ \<Rightarrow> True)"

definition saveGame ::
  "(json \<Rightarrow> 8 word list) \<Rightarrow> string \<Rightarrow> string \<Rightarrow> number \<Rightarrow> jsval \<Rightarrow> bool \<Rightarrow> js_error + GameSave" where
  "saveGame digest saveId saveName now state isAuto =
     (case createChecksum digest state of
        Inl e \<Rightarrow> Inl e
      | Inr storedSum \<Rightarrow>
          (case sanitizeGameState state of
             Inl e \<Rightarrow> Inl e
           | Inr sanitized \<Rightarrow>
               if \<not> notNullish (getProp state ''metadata'') then Inl TypeError
               else if \<not> notNullish (getProp state ''progression'') then Inl TypeError
               else
                 Inr \<lparr>save_id = saveId, save_name = saveName, save_gameState = sanitized,
                      save_timestamp = now,
                      save_version =
                        (case getProp state ''metadata'' of
                           None \<Rightarrow> None | Some md \<Rightarrow> getProp md ''version''),
                      checksum = Some storedSum, isAutoSave = isAuto\<rparr>))"

definition loadGame :: "(json \<Rightarrow> 8 word list) \<Rightarrow> GameSave option \<Rightarrow> jsval option \<times> string list" where
  "loadGame digest stored =
     (case stored of
        None \<Rightarrow> (None, [])
      | Some gameSave \<Rightarrow>
          (case checksum gameSave of
             None \<Rightarrow> (Some (save_gameState gameSave), [])
           | Some storedSum \<Rightarrow>
               if storedSum = [] then (Some (save_gameState gameSave), [])
               else
                 (case createChecksum digest (save_gameState gameSave) of
                    Inl e \<Rightarrow> (None, [''Failed to load game''])
                  | Inr expectedChecksum \<Rightarrow>
                      if expectedChecksum \<noteq> storedSum then (None, [''Save file corrupted''])
                      else (Some (save_gameState gameSave), []))))"

subsection \<open>Notions used in the statements\<close>

text \<open>
  The ledger invariant of the data model, a request that the balance covers (an absent
  field requests nothing), the exact difference, and sequences of ledger calls.
\<close>

definition ledger_nonneg :: "ResourceState \<Rightarrow> bool" where
  "ledger_nonneg r \<longleftrightarrow> 0 \<le> matchsticks r \<and> 0 \<le> money r \<and> 0 \<le> wood r \<and> 0 \<le> reputation r"

definition delta_nonneg :: "ResourceDelta \<Rightarrow> bool" where
  "delta_nonneg d \<longleftrightarrow>
     0 \<le> or0 (d_matchsticks d) \<and> 0 \<le> or0 (d_money d) \<and> 0 \<le> or0 (d_wood d) \<and> 0 \<le> or0 (d_reputation d)"

definition sufficient :: "ResourceState \<Rightarrow> ResourceDelta \<Rightarrow> bool" where
  "sufficient r d \<longleftrightarrow>
     or0 (d_matchsticks d) \<le> matchsticks r \<and> or0 (d_money d) \<le> money r \<and>
     or0 (d_wood d) \<le> wood r \<and> or0 (d_reputation d) \<le> reputation r"

definition minusDelta :: "ResourceState \<Rightarrow> ResourceDelta \<Rightarrow> ResourceState" where
  "minusDelta r d =
     \<lparr>matchsticks = matchsticks r - or0 (d_matchsticks d), money = money r - or0 (d_money d),
      wood = wood r - or0 (d_wood d), reputation = reputation r - or0 (d_reputation d)\<rparr>"

datatype ledger_call = Add ResourceDelta | Subtract ResourceDelta

fun ledgerCall :: "ledger_call \<Rightarrow> World \<Rightarrow> World" where
  "ledgerCall (Add d) w = addResources d w"
| "ledgerCall (Subtract d) w = snd (subtractResources d w)"

definition ledgerCalls :: "ledger_call list \<Rightarrow> World \<Rightarrow> World" where
  "ledgerCalls cs w = fold ledgerCall cs w"

fun nonneg_additions :: "ledger_call \<Rightarrow> bool" where
  "nonneg_additions (Add d) = delta_nonneg d"
| "nonneg_additions (Subtract d) = True"

text \<open>
  The part of the state that the achievement predicates read, the money a rule's reward
  credits, the rules that a call of \<open>checkAchievements\<close> unlocks, and the ids whose flag
  is set.
\<close>

definition qualifying :: "GameState \<Rightarrow> ProductionState \<times> MarketState \<times> AutomationState \<times> ProgressionState" where
  "qualifying state = (production state, market state, automation state, progression state)"

definition rewardMoney :: "SimpleAchievement \<Rightarrow> number" where
  "rewardMoney a = (if reward_type (reward a) = ''money'' then or0 (reward_amount (reward a)) else 0)"

definition pending :: "GameState \<Rightarrow> SimpleAchievement \<Rightarrow> bool" where
  "pending state a \<longleftrightarrow> \<not> ach_unlocked a \<and> isAchievementMet a state"

definition unlockedIds :: "SimpleAchievement list \<Rightarrow> string set" where
  "unlockedIds table = ach_id ` {a \<in> set table. ach_unlocked a}"

text \<open>The level at which a purchase finds an auto-clicker: \<open>existingClicker?.level || 0\<close>.\<close>

definition clickerLevel :: "string \<Rightarrow> GameState \<Rightarrow> nat" where
  "clickerLevel clickerId state =
     (case find (\<lambda>c. clicker_id c = clickerId) (autoClickers (automation state)) of
        None \<Rightarrow> 0 | Some c \<Rightarrow> level c)"

text \<open>
  A successful sale: the process state in which \<open>sellMatchsticks\<close> calls
  \<open>checkAchievements\<close>, and the store at that point written out.
\<close>

definition beforeCheck :: "number \<Rightarrow> bigint \<Rightarrow> World \<Rightarrow> World" where
  "beforeCheck now amount w =
     (let w1 = snd (gameActions_sellMatchsticks now amount w);
          effectivePrice = getCurrentPrice w * calculateMarketImpact amount;
          rev = real_of_int amount * effectivePrice;
          w2 = addResources (no_delta\<lparr>d_money := Some rev\<rparr>) w1;
          newTotalSold = SafeBigInt_add (totalSold (market (gameState w2))) amount;
          w3 = updateMarket (\<lambda>m. m\<lparr>totalSold := newTotalSold,
                 totalRevenue := totalRevenue (market (gameState w2)) + rev\<rparr>) w2;
          trade = \<lparr>trade_timestamp = now, matchsticksSold = amount,
                 trade_pricePerUnit = effectivePrice, trade_totalRevenue = rev,
                 marketCondition = conditionLabel (gameState w),
                 playerCash = money (resources (gameState w2)),
                 trade_marketShare = calculateMarketShare newTotalSold\<rparr>;
          w4 = w3\<lparr>recentTrades := take 50 (trade # recentTrades w3)\<rparr>;
          w5 = updatePriceAfterTrade amount effectivePrice w4
      in emitEvent \<lparr>event_type = ''trade_executed'', event_timestamp = now,
           event_source = ''market_service''\<rparr> w5)"

definition soldState :: "bigint \<Rightarrow> GameState \<Rightarrow> GameState" where
  "soldState amount g =
     (let p = currentPrice (market g); rev = real_of_int amount * (p * calculateMarketImpact amount) in
      g\<lparr>resources := (resources g)
           \<lparr>matchsticks := matchsticks (resources g) - amount,
            money := money (resources g) + real_of_int amount * p + rev\<rparr>,
        market := (market g)
           \<lparr>totalSold := SafeBigInt_add (SafeBigInt_add (totalSold (market g)) amount) amount,
            totalRevenue := totalRevenue (market g) + real_of_int amount * p + rev,
            currentPrice := max 0.1 (p * calculateMarketImpact amount
                               * (1 - min 0.05 (real_of_int amount / 5000)))\<rparr>\<rparr>)"

text \<open>
  \<open>load(save(state))\<close>: the record that \<open>saveGame\<close> puts is the record that \<open>loadGame\<close>
  gets.
\<close>

definition saveThenLoad ::
  "(json \<Rightarrow> 8 word list) \<Rightarrow> string \<Rightarrow> string \<Rightarrow> number \<Rightarrow> jsval \<Rightarrow> bool
    \<Rightarrow> js_error + jsval option" where
  "saveThenLoad digest saveId saveName now state isAuto =
     (case saveGame digest saveId saveName now state isAuto of
        Inl e \<Rightarrow> Inl e
      | Inr gameSave \<Rightarrow> Inr (fst (loadGame digest (Some gameSave))))"

text \<open>
  A value is free of forged tags when none of its objects has a property \<open>__type\<close> equal
  to the string \<open>bigint\<close>: the reviver takes such an object for an encoded bigint.
\<close>

fun tag_free :: "jsval \<Rightarrow> bool"
  and tag_free_elements :: "jsval list \<Rightarrow> bool"
  and tag_free_properties :: "(string \<times> jsval) list \<Rightarrow> bool" where
  "tag_free (VArray xs) = tag_free_elements xs"
| "tag_free (VObject ps) =
     (map_of ps ''__type'' \<noteq> Some (VString ''bigint'') \<and> tag_free_properties ps)"
| "tag_free VNull = True"
| "tag_free (VBool b) = True"
| "tag_free (VNumber n) = True"
| "tag_free (VString s) = True"
| "tag_free (VBigInt b) = True"
| "tag_free_elements [] = True"
| "tag_free_elements (x # xs) = (tag_free x \<and> tag_free_elements xs)"
| "tag_free_properties [] = True"
| "tag_free_properties (p # ps) = (tag_free (snd p) \<and> tag_free_properties ps)"

text \<open>
  The game state as a JavaScript object, section by section as the interfaces in \<open>types/\<close>
  declare it.  A market without a condition has no \<open>condition\<close> property.
\<close>

definition js_of_ResourceState :: "ResourceState \<Rightarrow> jsval" where
  "js_of_ResourceState r =
     VObject [(''matchsticks'', VBigInt (matchsticks r)), (''money'', VNumber (money r)),
       (''wood'', VNumber (wood r)), (''reputation'', VNumber (reputation r))]"

definition js_of_ProductionState :: "ProductionState \<Rightarrow> jsval" where
  "js_of_ProductionState p =
     VObject [(''manualRate'', VNumber (manualRate p)),
       (''automatedRate'', VNumber (automatedRate p)),
       (''multipliers'', VObject (map (\<lambda>km. (fst km, VNumber (snd km))) (multipliers p))),
       (''lastUpdate'', VNumber (lastUpdate p)),
       (''totalProduced'', VBigInt (totalProduced p))]"

definition js_of_MarketCondition :: "MarketCondition \<Rightarrow> jsval" where
  "js_of_MarketCondition c =
     VObject [(''priceMultiplier'', VNumber (priceMultiplier c)),
       (''demandLevel'', VString (demandLevel c)), (''trend'', VString (trend c)),
       (''duration'', VNumber (duration c)), (''description'', VString (description c))]"

definition js_of_PriceHistoryEntry :: "PriceHistoryEntry \<Rightarrow> jsval" where
  "js_of_PriceHistoryEntry e =
     VObject [(''timestamp'', VNumber (timestamp e)), (''price'', VNumber (price e)),
       (''volume'', VNumber (volume e)), (''condition'', VString (entry_condition e))]"

definition js_of_MarketState :: "MarketState \<Rightarrow> jsval" where
  "js_of_MarketState m =
     VObject ([(''currentPrice'', VNumber (currentPrice m)),
        (''basePrice'', VNumber (basePrice m)),
        (''priceHistory'', VArray (map js_of_PriceHistoryEntry (priceHistory m)))]
       @ (case condition m of None \<Rightarrow> [] | Some c \<Rightarrow> [(''condition'', js_of_MarketCondition c)])
       @ [(''autoSellEnabled'', VBool (autoSellEnabled m)),
        (''autoSellThreshold'', VNumber (autoSellThreshold m)),
        (''totalSold'', VBigInt (totalSold m)),
        (''totalRevenue'', VNumber (totalRevenue m))])"

definition js_of_AutoClicker :: "AutoClicker \<Rightarrow> jsval" where
  "js_of_AutoClicker c =
     VObject [(''id'', VString (clicker_id c)), (''level'', VNumber (real (level c))),
       (''isActive'', VBool (isActive c)), (''totalClicks'', VBigInt (totalClicks c)),
       (''efficiency'', VNumber (efficiency c))]"

definition js_of_AutoSellSettings :: "AutoSellSettings \<Rightarrow> jsval" where
  "js_of_AutoSellSettings a =
     VObject [(''enabled'', VBool (enabled a)), (''threshold'', VNumber (threshold a)),
       (''maxPercentage'', VNumber (maxPercentage a)),
       (''priceThreshold'', VNumber (priceThreshold a)),
       (''smartSelling'', VBool (smartSelling a))]"

definition js_of_AutomationState :: "AutomationState \<Rightarrow> jsval" where
  "js_of_AutomationState a =
     VObject [(''autoClickers'', VArray (map js_of_AutoClicker (autoClickers a))),
       (''autoSellEnabled'', VBool (automation_autoSellEnabled a)),
       (''autoSellSettings'', js_of_AutoSellSettings (autoSellSettings a)),
       (''totalMoneySpent'', VNumber (totalMoneySpent a)),
       (''lastUpdate'', VNumber (automation_lastUpdate a))]"

definition js_of_AchievementState :: "AchievementState \<Rightarrow> jsval" where
  "js_of_AchievementState a =
     VObject [(''unlocked'', VArray (map VString (unlocked a))),
       (''stats'', VObject [(''totalUnlocked'', VNumber (real (totalUnlocked (stats a)))),
          (''totalHidden'', VNumber (totalHidden (stats a))),
          (''completionPercentage'', VNumber (completionPercentage (stats a))),
          (''unlockedToday'', VNumber (unlockedToday (stats a)))])]"

definition js_of_ProgressionState :: "ProgressionState \<Rightarrow> jsval" where
  "js_of_ProgressionState p =
     VObject [(''currentPhase'', VString (currentPhase p)),
       (''unlockedFeatures'', VArray (map VString (unlockedFeatures p))),
       (''completedTutorials'', VArray (map VString (completedTutorials p))),
       (''worldConversionProgress'', VNumber (worldConversionProgress p)),
       (''prestigeLevel'', VNumber (prestigeLevel p))]"

definition js_of_GameMetadata :: "GameMetadata \<Rightarrow> jsval" where
  "js_of_GameMetadata m =
     VObject [(''version'', VString (version m)), (''createdAt'', VNumber (createdAt m)),
       (''lastSaved'', VNumber (lastSaved m)), (''totalPlayTime'', VNumber (totalPlayTime m)),
       (''sessionStartTime'', VNumber (sessionStartTime m)),
       (''playerId'', VString (playerId m)), (''gameSpeed'', VNumber (gameSpeed m)),
       (''debugMode'', VBool (debugMode m))]"

definition js_of_GameState :: "GameState \<Rightarrow> jsval" where
  "js_of_GameState g =
     VObject [(''resources'', js_of_ResourceState (resources g)),
       (''production'', js_of_ProductionState (production g)),
       (''market'', js_of_MarketState (market g)),
       (''automation'', js_of_AutomationState (automation g)),
       (''achievements'', js_of_AchievementState (achievements g)),
       (''progression'', js_of_ProgressionState (progression g)),
       (''metadata'', js_of_GameMetadata (metadata g))]"

subsection \<open>Sample states\<close>

text \<open>
  Concrete process states, a stored record and a stand-in digest of two bytes, on which the
  theorems below are exercised.
\<close>

definition stockedWorld :: World where
  "stockedWorld = addResources (no_delta\<lparr>d_matchsticks := Some 10, d_money := Some 8\<rparr>) (initialWorld 0)"


definition marketWorld :: World where
  "marketWorld = addResources (no_delta\<lparr>d_matchsticks := Some 1000\<rparr>) (initialWorld 0)"

definition sampleDigest :: "json \<Rightarrow> 8 word list" where
  "sampleDigest dat = [171, 1]"

definition bigState :: GameState where
  "bigState =
     (createInitialGameState 0)
       \<lparr>resources := (resources (createInitialGameState 0))\<lparr>matchsticks := 999999999999999999\<rparr>,
        production := (production (createInitialGameState 0))\<lparr>totalProduced := 123456789012345678\<rparr>,
        market := (market (createInitialGameState 0))\<lparr>totalSold := 18446744073709551616\<rparr>\<rparr>"

definition storedSave :: "string option \<Rightarrow> GameSave" where
  "storedSave c =
     \<lparr>save_id = ''save_1'', save_name = ''Test Save'', save_gameState = VObject [],
      save_timestamp = 7, save_version = None, checksum = c, isAutoSave = False\<rparr>"

definition producedWorld :: "bigint \<Rightarrow> World" where
  "producedWorld n = updateProduction 0 (\<lambda>p. p\<lparr>totalProduced := n\<rparr>) (initialWorld 0)"

definition loadedSnapshot :: GameState where
  "loadedSnapshot =
     (createInitialGameState 0)
       \<lparr>production := (production (createInitialGameState 0))\<lparr>totalProduced := 1\<rparr>,
        achievements :=
          \<lparr>unlocked = [''first_match''],
           stats = (stats (achievements (createInitialGameState 0)))\<lparr>totalUnlocked := 1\<rparr>\<rparr>\<rparr>"

definition partialSnapshot :: GameStateUpdate where
  "partialSnapshot =
     no_update\<lparr>update_achievements := Some
       \<lparr>unlocked = [''first_match'', ''first_hundred''],
        stats = \<lparr>totalUnlocked = 2, totalHidden = 0, completionPercentage = 20,
          unlockedToday = 0\<rparr>\<rparr>\<rparr>"



section \<open>Properties\<close>

subsection \<open>SafeBigInt bounds\<close>

lemma MAX_SAFE_nonneg: "0 \<le> MAX_SAFE"
  by (simp add: MAX_SAFE_def)

lemma sdiv_nonneg_bounds:
  fixes a b :: int
  assumes "0 \<le> a" and "0 \<le> b"
  shows "0 \<le> a sdiv b" and "a sdiv b \<le> a"
proof -
  have eq: "a sdiv b = sgn a * sgn b * (a div b)"
    using assms by (simp add: signed_divide_int_def)
  have d0: "0 \<le> a div b"
    using assms by (simp add: pos_imp_zdiv_nonneg_iff div_int_pos_iff)
  have d1: "a div b \<le> a"
    using assms int_div_le_self [of a b] by (cases "a = 0") simp_all
  have s: "sgn a * sgn b = 0 \<or> sgn a * sgn b = 1"
    using assms by (auto simp: sgn_if)
  from s d0 eq show "0 \<le> a sdiv b" by auto
  from s d0 d1 eq assms show "a sdiv b \<le> a" by auto
qed

text \<open>
  C3, as stated: every result of the four operations lies in \<open>[0, MAX]\<close> for all bigint
  inputs.  The clamps are one-sided, so a negative operand passes through \<open>add\<close>.
\<close>

theorem C3_all_inputs_counterexample:
  "\<not> (0 \<le> SafeBigInt_add (- 1) 0 \<and> SafeBigInt_add (- 1) 0 \<le> MAX_SAFE)"
  by (simp add: SafeBigInt_add_def MAX_SAFE_def)

text \<open>
  C3, amended: for all bigint inputs \<open>add\<close> and \<open>multiply\<close> never exceed \<open>MAX\<close>,
  \<open>subtract\<close> is never negative and \<open>divide\<close> by zero is zero; for operands that are
  themselves in \<open>[0, MAX]\<close> every result of the four operations lies in \<open>[0, MAX]\<close>.
\<close>

theorem C3_safebigint_bounds:
  "SafeBigInt_add a b \<le> MAX_SAFE \<and> SafeBigInt_multiply a b \<le> MAX_SAFE \<and> 0 \<le> SafeBigInt_subtract a b \<and> SafeBigInt_divide a 0 = 0 \<and>
   (SafeBigInt_isSafe a \<and> SafeBigInt_isSafe b \<longrightarrow>
      SafeBigInt_isSafe (SafeBigInt_add a b) \<and> SafeBigInt_isSafe (SafeBigInt_subtract a b) \<and> SafeBigInt_isSafe (SafeBigInt_multiply a b) \<and> SafeBigInt_isSafe (SafeBigInt_divide a b))"
proof -
  have one_sided:
    "SafeBigInt_add a b \<le> MAX_SAFE" "SafeBigInt_multiply a b \<le> MAX_SAFE" "0 \<le> SafeBigInt_subtract a b" "SafeBigInt_divide a 0 = 0"
    by (simp_all add: SafeBigInt_add_def SafeBigInt_multiply_def SafeBigInt_subtract_def SafeBigInt_divide_def Let_def)
  have safe: "SafeBigInt_isSafe (SafeBigInt_add a b) \<and> SafeBigInt_isSafe (SafeBigInt_subtract a b) \<and> SafeBigInt_isSafe (SafeBigInt_multiply a b) \<and> SafeBigInt_isSafe (SafeBigInt_divide a b)"
    if ab: "SafeBigInt_isSafe a \<and> SafeBigInt_isSafe b"
  proof -
    from ab have a: "0 \<le> a" "a \<le> MAX_SAFE" and b: "0 \<le> b" "b \<le> MAX_SAFE"
      by (simp_all add: SafeBigInt_isSafe_def)
    have "SafeBigInt_isSafe (SafeBigInt_add a b)"
      using a b by (simp add: SafeBigInt_isSafe_def SafeBigInt_add_def Let_def MAX_SAFE_nonneg)
    moreover have "SafeBigInt_isSafe (SafeBigInt_subtract a b)"
      using a b by (simp add: SafeBigInt_isSafe_def SafeBigInt_subtract_def Let_def MAX_SAFE_nonneg)
    moreover have "SafeBigInt_isSafe (SafeBigInt_multiply a b)"
      using a b by (simp add: SafeBigInt_isSafe_def SafeBigInt_multiply_def Let_def MAX_SAFE_nonneg)
    moreover have "SafeBigInt_isSafe (SafeBigInt_divide a b)"
      using a b sdiv_nonneg_bounds [of a b]
      by (auto simp: SafeBigInt_isSafe_def SafeBigInt_divide_def MAX_SAFE_nonneg)
    ultimately show ?thesis by simp
  qed
  from one_sided safe show ?thesis by blast
qed

theorem C3_safebigint_bounds_witness:
  "SafeBigInt_isSafe 1000 \<and> SafeBigInt_isSafe 3 \<and> SafeBigInt_add 1000 3 = 1003 \<and> SafeBigInt_subtract 3 1000 = 0 \<and> SafeBigInt_multiply 1000 3 = 3000 \<and>
   SafeBigInt_divide 1000 3 = 333 \<and> SafeBigInt_isSafe (SafeBigInt_divide 1000 3) \<and> SafeBigInt_add MAX_SAFE 1 = MAX_SAFE"
  using C3_safebigint_bounds [of 1000 3]
  by (simp add: SafeBigInt_isSafe_def SafeBigInt_add_def SafeBigInt_subtract_def SafeBigInt_multiply_def SafeBigInt_divide_def MAX_SAFE_def
      signed_divide_int_def)

subsection \<open>The resource ledger\<close>

lemma truthy_or0: "\<not> truthy x \<Longrightarrow> or0 x = 0"
  by (cases x) (simp_all add: truthy_def or0_def)

lemma addResources_nonneg:
  assumes "ledger_nonneg (resources (gameState w))" and "delta_nonneg d"
  shows "ledger_nonneg (resources (gameState (addResources d w)))"
  using assms MAX_SAFE_nonneg
  by (simp add: addResources_def ledger_nonneg_def delta_nonneg_def Let_def SafeBigInt_add_def)

lemma subtractResources_nonneg:
  assumes "ledger_nonneg (resources (gameState w))"
  shows "ledger_nonneg (resources (gameState (snd (subtractResources d w))))"
proof -
  have m: "0 \<le> SafeBigInt_subtract a b" for a b
    by (simp add: SafeBigInt_subtract_def Let_def)
  have z: "\<not> truthy x \<Longrightarrow> 0 \<le> y \<Longrightarrow> 0 \<le> y - or0 x" for x :: "real option" and y
    by (simp add: truthy_or0)
  show ?thesis
    using assms m z
    by (auto simp: subtractResources_def ledger_nonneg_def Let_def)
qed

lemma ledgerCall_nonneg:
  "ledger_nonneg (resources (gameState w)) \<Longrightarrow> nonneg_additions c
    \<Longrightarrow> ledger_nonneg (resources (gameState (ledgerCall c w)))"
  by (cases c) (simp_all add: addResources_nonneg subtractResources_nonneg)

lemma ledgerCalls_nonneg:
  "ledger_nonneg (resources (gameState w)) \<Longrightarrow> list_all nonneg_additions cs
    \<Longrightarrow> ledger_nonneg (resources (gameState (fold ledgerCall cs w)))"
  by (induction cs arbitrary: w) (simp_all add: ledgerCall_nonneg)

lemma initial_nonneg: "ledger_nonneg (resources (gameState (initialWorld now)))"
  by (simp add: initialWorld_def createInitialGameState_def ledger_nonneg_def)

text \<open>
  C4, as stated: after every sequence of \<open>addResources\<close> and \<open>subtractResources\<close> calls
  from the initial state all four ledger fields are non-negative.  \<open>addResources\<close> adds a
  negative amount as it is; the services themselves deduct money this way.
\<close>

theorem C4_negative_addition_counterexample:
  "money (resources (gameState (ledgerCalls [Add (no_delta\<lparr>d_money := Some (- 5)\<rparr>)] (initialWorld 0)))) < 0"
  by (simp add: ledgerCalls_def addResources_def initialWorld_def createInitialGameState_def
      no_delta_def or0_def truthy_def Let_def)

text \<open>
  C4, amended: after every sequence of \<open>subtractResources\<close> calls and of \<open>addResources\<close>
  calls whose amounts are non-negative, starting from the initial state, all four ledger
  fields are non-negative.
\<close>

theorem C4_ledger_never_negative:
  "list_all nonneg_additions cs \<Longrightarrow>
   ledger_nonneg (resources (gameState (ledgerCalls cs (initialWorld now))))"
  unfolding ledgerCalls_def by (rule ledgerCalls_nonneg [OF initial_nonneg])

theorem C4_ledger_never_negative_witness:
  "list_all nonneg_additions
     [Add (no_delta\<lparr>d_matchsticks := Some 7, d_money := Some 3\<rparr>),
      Subtract (no_delta\<lparr>d_matchsticks := Some 2, d_money := Some (- 1)\<rparr>),
      Subtract (no_delta\<lparr>d_wood := Some 1\<rparr>)] \<and>
   resources (gameState (ledgerCalls
     [Add (no_delta\<lparr>d_matchsticks := Some 7, d_money := Some 3\<rparr>),
      Subtract (no_delta\<lparr>d_matchsticks := Some 2, d_money := Some (- 1)\<rparr>),
      Subtract (no_delta\<lparr>d_wood := Some 1\<rparr>)] (initialWorld 0)))
     = \<lparr>matchsticks = 5, money = 4, wood = 0, reputation = 0\<rparr> \<and>
   ledger_nonneg (resources (gameState (ledgerCalls
     [Add (no_delta\<lparr>d_matchsticks := Some 7, d_money := Some 3\<rparr>),
      Subtract (no_delta\<lparr>d_matchsticks := Some 2, d_money := Some (- 1)\<rparr>),
      Subtract (no_delta\<lparr>d_wood := Some 1\<rparr>)] (initialWorld 0))))"
  using C4_ledger_never_negative [of
     "[Add (no_delta\<lparr>d_matchsticks := Some 7, d_money := Some 3\<rparr>),
      Subtract (no_delta\<lparr>d_matchsticks := Some 2, d_money := Some (- 1)\<rparr>),
      Subtract (no_delta\<lparr>d_wood := Some 1\<rparr>)]" 0]
  by (simp add: ledgerCalls_def addResources_def subtractResources_def initialWorld_def
      createInitialGameState_def no_delta_def or0_def truthy_def Let_def delta_nonneg_def
      SafeBigInt_add_def SafeBigInt_subtract_def SafeBigInt_compare_def MAX_SAFE_def)

text \<open>
  C5: \<open>subtractResources\<close> validates before it mutates.  A failed call returns false and
  leaves the whole process state as it was; a successful call returns true and subtracts
  exactly the requested amount from every field; a requested non-zero amount above the
  balance of its field makes the call fail; and on a ledger that satisfies the data model
  (no negative field) the call succeeds exactly when every requested amount is covered.
\<close>

theorem C5_subtractResources_all_or_nothing:
  fixes d :: ResourceDelta and w :: World
  defines "r \<equiv> resources (gameState w)"
  defines "res \<equiv> subtractResources d w"
  shows "(\<not> fst res \<longrightarrow> snd res = w) \<and>
         (fst res \<longrightarrow> snd res = w\<lparr>gameState := (gameState w)\<lparr>resources := minusDelta r d\<rparr>\<rparr>) \<and>
         ((truthy (d_matchsticks d) \<and> matchsticks r < or0 (d_matchsticks d)) \<or>
          (truthy (d_money d) \<and> money r < or0 (d_money d)) \<or>
          (truthy (d_wood d) \<and> wood r < or0 (d_wood d)) \<or>
          (truthy (d_reputation d) \<and> reputation r < or0 (d_reputation d)) \<longrightarrow> \<not> fst res) \<and>
         (ledger_nonneg r \<longrightarrow> (fst res \<longleftrightarrow> sufficient r d))"
proof -
  have a: "\<not> fst res \<longrightarrow> snd res = w"
    by (simp add: res_def subtractResources_def Let_def)
  have b: "fst res \<longrightarrow> snd res = w\<lparr>gameState := (gameState w)\<lparr>resources := minusDelta r d\<rparr>\<rparr>"
    by (auto simp: res_def r_def subtractResources_def Let_def minusDelta_def truthy_or0
        SafeBigInt_compare_def SafeBigInt_subtract_def split: if_splits)
  have c: "(truthy (d_matchsticks d) \<and> matchsticks r < or0 (d_matchsticks d)) \<or>
          (truthy (d_money d) \<and> money r < or0 (d_money d)) \<or>
          (truthy (d_wood d) \<and> wood r < or0 (d_wood d)) \<or>
          (truthy (d_reputation d) \<and> reputation r < or0 (d_reputation d)) \<longrightarrow> \<not> fst res"
    by (auto simp: res_def r_def subtractResources_def Let_def SafeBigInt_compare_def)
  have d: "ledger_nonneg r \<longrightarrow> (fst res \<longleftrightarrow> sufficient r d)"
  proof
    assume nn: "ledger_nonneg r"
    have gi: "(truthy x \<and> y < or0 x) \<longleftrightarrow> y < or0 x" if "0 \<le> y" for x :: "int option" and y
      using that by (cases "truthy x") (simp_all add: truthy_or0)
    have gr: "(truthy x \<and> y < or0 x) \<longleftrightarrow> y < or0 x" if "0 \<le> y" for x :: "real option" and y
      using that by (cases "truthy x") (simp_all add: truthy_or0)
    from nn have nn': "0 \<le> matchsticks r" "0 \<le> money r" "0 \<le> wood r" "0 \<le> reputation r"
      by (simp_all add: ledger_nonneg_def)
    have e: "fst res \<longleftrightarrow>
        \<not> (truthy (d_matchsticks d) \<and> matchsticks r < or0 (d_matchsticks d)) \<and>
        \<not> (truthy (d_money d) \<and> money r < or0 (d_money d)) \<and>
        \<not> (truthy (d_wood d) \<and> wood r < or0 (d_wood d)) \<and>
        \<not> (truthy (d_reputation d) \<and> reputation r < or0 (d_reputation d))"
      by (simp add: res_def r_def subtractResources_def Let_def SafeBigInt_compare_def)
    show "fst res \<longleftrightarrow> sufficient r d"
      unfolding e sufficient_def using nn' by (simp add: gi gr not_less)
  qed
  from a b c d show ?thesis by blast
qed

lemma stockedWorld_resources:
  "resources (gameState stockedWorld) = \<lparr>matchsticks = 10, money = 8, wood = 0, reputation = 0\<rparr>"
  by (simp add: stockedWorld_def addResources_def initialWorld_def createInitialGameState_def
      no_delta_def or0_def truthy_def Let_def SafeBigInt_add_def MAX_SAFE_def)

theorem C5_subtractResources_all_or_nothing_witness:
  "ledger_nonneg (resources (gameState stockedWorld)) \<and>
   sufficient (resources (gameState stockedWorld)) (no_delta\<lparr>d_matchsticks := Some 4, d_money := Some 3\<rparr>) \<and>
   fst (subtractResources (no_delta\<lparr>d_matchsticks := Some 4, d_money := Some 3\<rparr>) stockedWorld) \<and>
   resources (gameState (snd (subtractResources (no_delta\<lparr>d_matchsticks := Some 4, d_money := Some 3\<rparr>) stockedWorld)))
     = \<lparr>matchsticks = 6, money = 5, wood = 0, reputation = 0\<rparr> \<and>
   \<not> sufficient (resources (gameState stockedWorld)) (no_delta\<lparr>d_matchsticks := Some 4, d_money := Some 9\<rparr>) \<and>
   subtractResources (no_delta\<lparr>d_matchsticks := Some 4, d_money := Some 9\<rparr>) stockedWorld = (False, stockedWorld)"
proof -
  let ?ok = "no_delta\<lparr>d_matchsticks := Some 4, d_money := Some 3\<rparr>"
  let ?short = "no_delta\<lparr>d_matchsticks := Some 4, d_money := Some 9\<rparr>"
  have nn: "ledger_nonneg (resources (gameState stockedWorld))"
    by (simp add: stockedWorld_resources ledger_nonneg_def)
  have s1: "sufficient (resources (gameState stockedWorld)) ?ok"
    by (simp add: stockedWorld_resources sufficient_def no_delta_def or0_def)
  have s2: "\<not> sufficient (resources (gameState stockedWorld)) ?short"
    by (simp add: stockedWorld_resources sufficient_def no_delta_def or0_def)
  have m: "minusDelta (resources (gameState stockedWorld)) ?ok
             = \<lparr>matchsticks = 6, money = 5, wood = 0, reputation = 0\<rparr>"
    by (simp add: stockedWorld_resources minusDelta_def no_delta_def or0_def)
  from C5_subtractResources_all_or_nothing [of ?ok stockedWorld] nn s1
  have ok: "fst (subtractResources ?ok stockedWorld)"
    and st: "snd (subtractResources ?ok stockedWorld)
       = stockedWorld\<lparr>gameState := (gameState stockedWorld)
           \<lparr>resources := minusDelta (resources (gameState stockedWorld)) ?ok\<rparr>\<rparr>"
    by blast+
  from C5_subtractResources_all_or_nothing [of ?short stockedWorld] nn s2
  have "\<not> fst (subtractResources ?short stockedWorld)"
    and "snd (subtractResources ?short stockedWorld) = stockedWorld"
    by blast+
  then have short: "subtractResources ?short stockedWorld = (False, stockedWorld)"
    by (simp add: prod_eq_iff)
  from nn s1 ok s2 short show ?thesis
    by (simp add: st m)
qed

subsection \<open>Achievements\<close>


lemma isAchievementMet_flag [simp]:
  "isAchievementMet (a\<lparr>ach_unlocked := b\<rparr>) state = isAchievementMet a state"
  by (simp add: isAchievementMet_def)

lemma isAchievementMet_qualifying:
  "qualifying s = qualifying s' \<Longrightarrow> isAchievementMet a s = isAchievementMet a s'"
  by (simp add: isAchievementMet_def qualifying_def)

lemma checkLoop_closed:
  "checkLoop now state table w =
     (map (\<lambda>a. if pending state a then a\<lparr>ach_unlocked := True\<rparr> else a) table,
      map (\<lambda>a. a\<lparr>ach_unlocked := True\<rparr>) (filter (pending state) table),
      fold (unlockStep now state) (filter (pending state) table) w)"
  by (induction table arbitrary: w) (simp_all add: pending_def Let_def)

lemma gameState_applyReward:
  "gameState (applyReward (reward a) w) =
     (gameState w)\<lparr>resources := (resources (gameState w))
        \<lparr>money := money (resources (gameState w)) + rewardMoney a\<rparr>\<rparr>"
  by (cases "truthy (reward_amount (reward a))")
     (simp_all add: applyReward_def rewardMoney_def addResources_def Let_def no_delta_def
        truthy_or0, simp_all add: or0_def truthy_def)

lemma gameState_unlockStep:
  "gameState (unlockStep now state a w) =
     (gameState w)\<lparr>resources := (resources (gameState w))
        \<lparr>money := money (resources (gameState w)) + rewardMoney a\<rparr>,
       achievements := \<lparr>unlocked = unlocked (achievements state) @ [ach_id a],
         stats = (stats (achievements state))
           \<lparr>totalUnlocked := totalUnlocked (stats (achievements state)) + 1\<rparr>\<rparr>\<rparr>"
  by (simp add: unlockStep_def Let_def updateAchievements_def emitEvent_def gameState_applyReward)

lemma fold_unlockStep_money:
  "money (resources (gameState (fold (unlockStep now state) ps w)))
     = money (resources (gameState w)) + sum_list (map rewardMoney ps)"
  by (induction ps arbitrary: w) (simp_all add: gameState_unlockStep)

lemma fold_unlockStep_qualifying:
  "qualifying (gameState (fold (unlockStep now state) ps w)) = qualifying (gameState w)"
  by (induction ps arbitrary: w) (simp_all add: gameState_unlockStep qualifying_def)

lemma fold_unlockStep_unlocked:
  "unlocked (achievements (gameState (fold (unlockStep now state) ps w)))
     = (if ps = [] then unlocked (achievements (gameState w))
        else unlocked (achievements state) @ [ach_id (last ps)])"
  by (induction ps arbitrary: w) (simp_all add: gameState_unlockStep)

lemma checkAchievements_closed:
  "checkAchievements now w =
     (map (\<lambda>a. a\<lparr>ach_unlocked := True\<rparr>) (filter (pending (gameState w)) (achievementList w)),
      (fold (unlockStep now (gameState w)) (filter (pending (gameState w)) (achievementList w)) w)
        \<lparr>achievementList :=
           map (\<lambda>a. if pending (gameState w) a then a\<lparr>ach_unlocked := True\<rparr> else a)
             (achievementList w)\<rparr>)"
  by (simp add: checkAchievements_def checkLoop_closed)

lemma no_pending_after:
  assumes "qualifying s' = qualifying s"
  shows "filter (pending s')
           (map (\<lambda>a. if pending s a then a\<lparr>ach_unlocked := True\<rparr> else a) table) = []"
  using isAchievementMet_qualifying [OF assms]
  by (induction table) (auto simp: pending_def)

lemma map_mark_id: "filter P xs = [] \<Longrightarrow> map (\<lambda>a. if P a then f a else a) xs = xs"
  by (induction xs) (auto split: if_splits)

lemma rewardMoney_flag [simp]: "rewardMoney (a\<lparr>ach_unlocked := b\<rparr>) = rewardMoney a"
  by (simp add: rewardMoney_def)

lemma unlockedIds_mono:
  "unlockedIds table \<subseteq> unlockedIds (map (\<lambda>a. if pending s a then a\<lparr>ach_unlocked := True\<rparr> else a) table)"
  by (induction table) (auto simp: unlockedIds_def pending_def)

lemma pending_ids_fresh:
  assumes "distinct (map ach_id table)"
  shows "set (map ach_id (filter (pending s) table)) \<inter> unlockedIds table = {}"
proof -
  have "False" if "a \<in> set table" "pending s a" "b \<in> set table" "ach_unlocked b" "ach_id a = ach_id b" for a b
  proof -
    from assms that(1,3,5) have "a = b" by (meson distinct_map inj_onD)
    with that(2,4) show False by (simp add: pending_def)
  qed
  then show ?thesis by (fastforce simp: unlockedIds_def)
qed

text \<open>
  C6: \<open>checkAchievements\<close> is idempotent and monotonic within one process.  After a first
  call, a second call in any state with the same rule table and unchanged qualifying state
  (in particular the state the first call leaves) returns the empty list and changes
  nothing, so no reward is applied again; the first call credits the sum of the rewards of
  the rules it returns, each of which (the ids of the table being distinct) occurs once and
  was not unlocked before; the set of flagged ids and the persisted unlocked-id list only
  grow.
\<close>

theorem C6_checkAchievements_idempotent:
  assumes first: "checkAchievements now w = (newlyUnlocked, w1)"
    and same_table: "achievementList w' = achievementList w1"
    and same_state: "qualifying (gameState w') = qualifying (gameState w)"
  shows "checkAchievements now' w' = ([], w') \<and>
         checkAchievements now' w1 = ([], w1) \<and>
         money (resources (gameState w1)) =
           money (resources (gameState w)) + sum_list (map rewardMoney newlyUnlocked) \<and>
         (distinct (map ach_id (achievementList w)) \<longrightarrow>
            distinct (map ach_id newlyUnlocked) \<and>
            set (map ach_id newlyUnlocked) \<inter> unlockedIds (achievementList w) = {}) \<and>
         unlockedIds (achievementList w) \<subseteq> unlockedIds (achievementList w1) \<and>
         set (unlocked (achievements (gameState w))) \<subseteq> set (unlocked (achievements (gameState w1)))"
proof -
  let ?ps = "filter (pending (gameState w)) (achievementList w)"
  let ?mark = "\<lambda>a. if pending (gameState w) a then a\<lparr>ach_unlocked := True\<rparr> else a"
  from first have new: "newlyUnlocked = map (\<lambda>a. a\<lparr>ach_unlocked := True\<rparr>) ?ps"
    and w1: "w1 = (fold (unlockStep now (gameState w)) ?ps w)\<lparr>achievementList := map ?mark (achievementList w)\<rparr>"
    by (simp_all add: checkAchievements_closed)
  have table1: "achievementList w1 = map ?mark (achievementList w)"
    by (simp add: w1)
  have state1: "gameState w1 = gameState (fold (unlockStep now (gameState w)) ?ps w)"
    by (simp add: w1)
  have q1: "qualifying (gameState w1) = qualifying (gameState w)"
    by (simp add: state1 fold_unlockStep_qualifying)
  have idem: "checkAchievements now' v = ([], v)"
    if "achievementList v = achievementList w1" "qualifying (gameState v) = qualifying (gameState w)" for v
  proof -
    have "filter (pending (gameState v)) (achievementList v) = []"
      using that by (simp add: table1 no_pending_after)
    then show ?thesis by (simp add: checkAchievements_closed map_mark_id)
  qed
  have c1: "checkAchievements now' w' = ([], w')"
    using same_table same_state by (rule idem)
  have c2: "checkAchievements now' w1 = ([], w1)"
    using q1 by (intro idem) simp_all
  have c3: "money (resources (gameState w1)) =
           money (resources (gameState w)) + sum_list (map rewardMoney newlyUnlocked)"
    by (simp add: state1 fold_unlockStep_money new comp_def)
  have c4: "distinct (map ach_id newlyUnlocked) \<and>
            set (map ach_id newlyUnlocked) \<inter> unlockedIds (achievementList w) = {}"
    if d: "distinct (map ach_id (achievementList w))"
  proof -
    have "distinct (map ach_id ?ps)"
      using d by (rule distinct_map_filter)
    moreover have "set (map ach_id ?ps) \<inter> unlockedIds (achievementList w) = {}"
      using d by (rule pending_ids_fresh)
    ultimately show ?thesis by (simp add: new comp_def del: set_map)
  qed
  have c5: "unlockedIds (achievementList w) \<subseteq> unlockedIds (achievementList w1)"
    unfolding table1 by (rule unlockedIds_mono)
  have c6: "set (unlocked (achievements (gameState w))) \<subseteq> set (unlocked (achievements (gameState w1)))"
    by (auto simp: state1 fold_unlockStep_unlocked)
  from c1 c2 c3 c4 c5 c6 show ?thesis by blast
qed


lemma producedWorld_pending:
  "filter (pending (gameState (producedWorld 100))) (achievementList (producedWorld 100)) =
     [mkAchievement ''first_match'' ''First Light'' ''Create your very first matchstick''
        ''production'' ''easy'' 5 (resource_total 1) 10,
      mkAchievement ''first_hundred'' ''Century Maker'' ''Produce 100 matchsticks''
        ''production'' ''easy'' 10 (resource_total 100) 50]"
  by (simp add: producedWorld_def initialWorld_def createInitialGameState_def updateProduction_def
      initializeAchievements_def pending_def isAchievementMet_def mkAchievement_def
      resource_total_def stat_threshold_def phase_reached_def or0_def Let_def)

theorem C6_checkAchievements_idempotent_witness:
  "checkAchievements 1 (producedWorld 100) =
     (fst (checkAchievements 1 (producedWorld 100)), snd (checkAchievements 1 (producedWorld 100))) \<and>
   qualifying (gameState (snd (checkAchievements 1 (producedWorld 100)))) =
     qualifying (gameState (producedWorld 100)) \<and>
   map ach_id (fst (checkAchievements 1 (producedWorld 100))) = [''first_match'', ''first_hundred''] \<and>
   money (resources (gameState (producedWorld 100))) = 0 \<and>
   money (resources (gameState (snd (checkAchievements 1 (producedWorld 100))))) = 60 \<and>
   checkAchievements 2 (snd (checkAchievements 1 (producedWorld 100))) =
     ([], snd (checkAchievements 1 (producedWorld 100)))"
proof -
  let ?w = "producedWorld 100"
  let ?new = "fst (checkAchievements 1 ?w)"
  let ?w1 = "snd (checkAchievements 1 ?w)"
  have h1: "checkAchievements 1 ?w = (?new, ?w1)" by simp
  have h3: "qualifying (gameState ?w1) = qualifying (gameState ?w)"
    by (simp add: checkAchievements_closed fold_unlockStep_qualifying)
  have new: "?new = map (\<lambda>a. a\<lparr>ach_unlocked := True\<rparr>)
      (filter (pending (gameState ?w)) (achievementList ?w))"
    by (simp add: checkAchievements_closed)
  have ids: "map ach_id ?new = [''first_match'', ''first_hundred'']"
    unfolding new producedWorld_pending by (simp add: mkAchievement_def)
  have rewards: "map rewardMoney ?new = [10, 50]"
    unfolding new producedWorld_pending by (simp add: mkAchievement_def rewardMoney_def or0_def)
  have m0: "money (resources (gameState ?w)) = 0"
    by (simp add: producedWorld_def initialWorld_def createInitialGameState_def updateProduction_def Let_def)
  from C6_checkAchievements_idempotent [OF h1 refl h3, of 2]
  have idem: "checkAchievements 2 ?w1 = ([], ?w1)"
    and m1: "money (resources (gameState ?w1)) =
       money (resources (gameState ?w)) + sum_list (map rewardMoney ?new)"
    by blast+
  from h1 h3 ids m0 idem m1 show ?thesis
    by (simp add: rewards)
qed

lemma load_keeps_flags: "achievementList (load now d w) = achievementList w"
  by (simp add: load_def emitEvent_def Let_def)

lemma load_full_achievements:
  "achievements (gameState (load now (FullState snapshot) w)) = achievements snapshot"
  by (simp add: load_def emitEvent_def validateAndSanitizeState_def Let_def)

lemma load_partial_achievements:
  "achievements (gameState (load now (PartialUpdate partialData) w)) = achievements (gameState w)"
  by (simp add: load_def emitEvent_def validateAndSanitizeState_def Let_def)

lemma loaded_pending:
  "filter (pending (gameState (load 5 (FullState loadedSnapshot) (initialWorld 0))))
     (achievementList (load 5 (FullState loadedSnapshot) (initialWorld 0))) =
     [mkAchievement ''first_match'' ''First Light'' ''Create your very first matchstick''
        ''production'' ''easy'' 5 (resource_total 1) 10]"
  by (simp add: load_def emitEvent_def validateAndSanitizeState_def
      loadedSnapshot_def initialWorld_def createInitialGameState_def
      initializeAchievements_def pending_def isAchievementMet_def mkAchievement_def
      resource_total_def stat_threshold_def phase_reached_def or0_def Let_def)

text \<open>
  C7: the achievement service has no operation that sets its flags from the store.  Its
  class has no \<open>syncWithGameState\<close>, which the tests of the service call, and \<open>load\<close> leaves the
  flags as they are.  A process that starts, loads a snapshot in which \<open>first_match\<close> is
  unlocked and one matchstick was produced, and then checks the achievements, unlocks
  \<open>first_match\<close> a second time: the check returns it, the money rises from 0 by its reward
  of 10, and the persisted list holds its id twice.  Loaded as a partial update, an
  achievements section is dropped, and the persisted list stays empty.
\<close>

theorem C7_load_then_check_retriggers:
  "unlocked (achievements loadedSnapshot) = [''first_match''] \<and>
   unlocked (achievements (gameState (load 5 (FullState loadedSnapshot) (initialWorld 0)))) =
     [''first_match''] \<and>
   achievementList (load 5 (FullState loadedSnapshot) (initialWorld 0)) =
     achievementList (initialWorld 0) \<and>
   filter ach_unlocked (achievementList (load 5 (FullState loadedSnapshot) (initialWorld 0))) =
     [] \<and>
   money (resources (gameState (load 5 (FullState loadedSnapshot) (initialWorld 0)))) = 0 \<and>
   map ach_id (fst (checkAchievements 9
     (load 5 (FullState loadedSnapshot) (initialWorld 0)))) = [''first_match''] \<and>
   money (resources (gameState (snd (checkAchievements 9
     (load 5 (FullState loadedSnapshot) (initialWorld 0)))))) = 10 \<and>
   unlocked (achievements (gameState (snd (checkAchievements 9
     (load 5 (FullState loadedSnapshot) (initialWorld 0)))))) =
     [''first_match'', ''first_match''] \<and>
   update_achievements partialSnapshot =
     Some \<lparr>unlocked = [''first_match'', ''first_hundred''],
       stats = \<lparr>totalUnlocked = 2, totalHidden = 0, completionPercentage = 20,
         unlockedToday = 0\<rparr>\<rparr> \<and>
   unlocked (achievements (gameState
     (load 5 (PartialUpdate partialSnapshot) (initialWorld 0)))) = []"
proof -
  let ?w1 = "load 5 (FullState loadedSnapshot) (initialWorld 0)"
  let ?res = "checkAchievements 9 ?w1"
  have s0: "unlocked (achievements loadedSnapshot) = [''first_match'']"
    by (simp add: loadedSnapshot_def)
  have s1: "unlocked (achievements (gameState ?w1)) = [''first_match'']"
    by (simp add: load_full_achievements s0)
  have f1: "achievementList ?w1 = achievementList (initialWorld 0)"
    by (rule load_keeps_flags)
  have f2: "filter ach_unlocked (achievementList ?w1) = []"
    unfolding f1
    by (simp add: initialWorld_def initializeAchievements_def mkAchievement_def)
  have m0: "money (resources (gameState ?w1)) = 0"
    by (simp add: load_def emitEvent_def validateAndSanitizeState_def loadedSnapshot_def
        createInitialGameState_def Let_def)
  have new: "fst ?res = map (\<lambda>a. a\<lparr>ach_unlocked := True\<rparr>)
      (filter (pending (gameState ?w1)) (achievementList ?w1))"
    and state: "gameState (snd ?res) =
      gameState (fold (unlockStep 9 (gameState ?w1))
        (filter (pending (gameState ?w1)) (achievementList ?w1)) ?w1)"
    by (simp_all add: checkAchievements_closed)
  have ids: "map ach_id (fst ?res) = [''first_match'']"
    unfolding new loaded_pending by (simp add: mkAchievement_def)
  have m1: "money (resources (gameState (snd ?res))) = 10"
    unfolding state fold_unlockStep_money loaded_pending m0
    by (simp add: mkAchievement_def rewardMoney_def or0_def)
  have u1: "unlocked (achievements (gameState (snd ?res))) = [''first_match'', ''first_match'']"
    unfolding state fold_unlockStep_unlocked loaded_pending s1
    by (simp add: mkAchievement_def)
  have p0: "update_achievements partialSnapshot =
     Some \<lparr>unlocked = [''first_match'', ''first_hundred''],
       stats = \<lparr>totalUnlocked = 2, totalHidden = 0, completionPercentage = 20,
         unlockedToday = 0\<rparr>\<rparr>"
    by (simp add: partialSnapshot_def no_update_def)
  have p1: "unlocked (achievements (gameState
     (load 5 (PartialUpdate partialSnapshot) (initialWorld 0)))) = []"
    by (simp add: load_partial_achievements initialWorld_def createInitialGameState_def)
  from s0 s1 f1 f2 m0 ids m1 u1 p0 p1 show ?thesis
    by simp
qed

subsection \<open>Auto-clicker purchases\<close>

lemma checkAchievements_qualifying:
  "qualifying (gameState (snd (checkAchievements now w))) = qualifying (gameState w)"
  by (simp add: checkAchievements_closed fold_unlockStep_qualifying)

lemma checkAchievements_automation:
  "automation (gameState (snd (checkAchievements now w))) = automation (gameState w)"
  using checkAchievements_qualifying [of now w] by (simp add: qualifying_def)

lemma find_append_new:
  "find p xs = None \<Longrightarrow> p y \<Longrightarrow> find p (xs @ [y]) = Some y"
  by (induction xs) (auto split: if_splits)

lemma find_update_existing:
  "find p xs = Some x \<Longrightarrow> p y \<Longrightarrow>
   (case findIndex p xs of Some i \<Rightarrow> find p (xs[i := y]) = Some y | None \<Rightarrow> False)"
  by (induction xs) (auto split: if_splits option.splits)

lemma find_Some_holds: "find p xs = Some x \<Longrightarrow> p x"
  by (induction xs) (auto split: if_splits)

text \<open>
  The rounding is to a nearest double: for a positive \<open>x\<close> with binary exponent \<open>e\<close> the
  result is a multiple \<open>m * 2 ^ (e - 52)\<close> with a significand \<open>m\<close> of 53 bits, at most half
  a unit in the last place away from \<open>x\<close>.
\<close>

lemma ilog2_bounds: "0 < n \<Longrightarrow> 2 ^ ilog2 n \<le> n \<and> n < 2 ^ (ilog2 n + 1)"
proof (induction n rule: ilog2.induct)
  case (1 n)
  show ?case
  proof (cases "n < 2")
    case True
    with 1(2) show ?thesis by (simp add: ilog2.simps)
  next
    case False
    then have pos: "0 < n div 2" by simp
    from 1(1) [OF False pos] have ih: "2 ^ ilog2 (n div 2) \<le> n div 2"
      "n div 2 < 2 ^ (ilog2 (n div 2) + 1)" by simp_all
    have e: "ilog2 n = Suc (ilog2 (n div 2))" using False by (subst ilog2.simps) simp
    from ih show ?thesis unfolding e by simp linarith
  qed
qed

lemma binaryExponent_bounds:
  assumes "0 < x"
  shows "2 powi binaryExponent x \<le> x \<and> x < 2 powi (binaryExponent x + 1)"
proof (cases "1 \<le> x")
  case True
  let ?n = "nat \<lfloor>x\<rfloor>"
  have n: "0 < ?n" using True by simp
  have fl: "real ?n \<le> x" "x < real ?n + 1" using True by linarith+
  from ilog2_bounds [OF n] have b: "2 ^ ilog2 ?n \<le> ?n" "?n + 1 \<le> 2 ^ (ilog2 ?n + 1)" by simp_all
  have h1: "(2::real) ^ ilog2 ?n \<le> real ?n"
    using of_nat_mono [OF b(1), where 'a = real] by simp
  have h2: "real ?n + 1 \<le> 2 ^ (ilog2 ?n + 1)"
    using of_nat_mono [OF b(2), where 'a = real] by simp
  have e: "binaryExponent x = int (ilog2 ?n)" using True by (simp add: binaryExponent_def)
  have p1: "(2::real) powi int (ilog2 ?n) = 2 ^ ilog2 ?n"
    by simp
  have p2: "(2::real) powi (int (ilog2 ?n) + 1) = 2 ^ (ilog2 ?n + 1)"
    by (simp add: power_int_add)
  show ?thesis unfolding e p1 p2 using h1 h2 fl by linarith
next
  case False
  let ?n = "nat \<lfloor>1 / x\<rfloor>"
  let ?j = "ilog2 ?n"
  have x1: "x < 1" using False by simp
  have inv: "1 < 1 / x" using assms x1 by simp
  have n: "0 < ?n" using inv by simp
  have fl: "real ?n \<le> 1 / x" "1 / x < real ?n + 1" using inv by linarith+
  from ilog2_bounds [OF n] have b: "2 ^ ?j \<le> ?n" "?n + 1 \<le> 2 ^ (?j + 1)" by simp_all
  have b1: "(2::real) ^ ?j \<le> real ?n"
    using of_nat_mono [OF b(1), where 'a = real] by simp
  have b2: "real ?n + 1 \<le> 2 ^ (?j + 1)"
    using of_nat_mono [OF b(2), where 'a = real] by simp
  have up: "x * 2 ^ ?j \<le> 1"
  proof -
    have "2 ^ ?j \<le> 1 / x" using b1 fl(1) by linarith
    then show ?thesis using assms by (simp add: field_simps)
  qed
  have lo: "1 < x * 2 ^ (?j + 1)"
  proof -
    have "1 / x < 2 ^ (?j + 1)" using b2 fl(2) by linarith
    then show ?thesis using assms by (simp add: field_simps)
  qed
  show ?thesis
  proof (cases "x * 2 ^ ?j = 1")
    case True
    then have e: "binaryExponent x = - int ?j" using False by (simp add: binaryExponent_def Let_def)
    have xv: "x = 1 / 2 ^ ?j" using True by (simp add: field_simps)
    have q1: "(2::real) powi (- int ?j) = 1 / 2 ^ ?j"
      by (simp add: power_int_minus field_simps)
    have "(2::real) powi (- int ?j + 1) = 2 powi (- int ?j) * 2 powi 1"
      by (rule power_int_add) simp
    then have q2: "(2::real) powi (- int ?j + 1) = 2 / 2 ^ ?j"
      unfolding q1 by simp
    have "(1::real) / 2 ^ ?j < 2 / 2 ^ ?j"
      by (rule divide_strict_right_mono) simp_all
    then show ?thesis unfolding e q1 q2 using xv by simp
  next
    case neq: False
    then have e: "binaryExponent x = - int ?j - 1" using False by (simp add: binaryExponent_def Let_def)
    from neq up have lt: "x * 2 ^ ?j < 1" by simp
    have p1: "(2::real) powi (- int ?j - 1) = 1 / 2 ^ (?j + 1)"
      by (simp add: power_int_diff power_int_minus field_simps)
    have p2: "(2::real) powi (- int ?j - 1 + 1) = 1 / 2 ^ ?j"
      by (simp add: power_int_minus field_simps)
    show ?thesis unfolding e p1 p2 using lo lt
      by (simp add: field_simps)
  qed
qed


lemma roundHalfEven_near: "\<bar>of_int (roundHalfEven q) - q\<bar> \<le> 1 / 2"
proof -
  have "of_int \<lfloor>q\<rfloor> \<le> q" "q < of_int \<lfloor>q\<rfloor> + 1" by linarith+
  then show ?thesis
    by (simp add: roundHalfEven_def Let_def)
qed

lemma roundHalfEven_between:
  "of_int k \<le> q \<Longrightarrow> q < of_int n \<Longrightarrow> k \<le> roundHalfEven q \<and> roundHalfEven q \<le> n"
proof -
  assume a: "of_int k \<le> q" "q < of_int n"
  then have "k \<le> \<lfloor>q\<rfloor>" "\<lfloor>q\<rfloor> + 1 \<le> n" by linarith+
  then show ?thesis
    by (simp add: roundHalfEven_def Let_def)
qed

lemma roundToDouble_nearest:
  assumes "0 < x"
  defines "ulp \<equiv> 2 powi (binaryExponent x - 52)"
  shows "\<exists>m. roundToDouble x = of_int m * ulp \<and> 2 ^ 52 \<le> m \<and> m \<le> 2 ^ 53 \<and>
           \<bar>of_int m * ulp - x\<bar> \<le> ulp / 2"
proof -
  let ?e = "binaryExponent x"
  let ?m = "roundHalfEven (x / ulp)"
  have pos: "0 < ulp" by (simp add: ulp_def)
  have r: "roundToDouble x = of_int ?m * ulp"
    using assms(1) by (simp add: roundToDouble_def Let_def ulp_def)
  have lo: "(2::real) powi ?e = 2 ^ 52 * ulp"
  proof -
    have "(2::real) powi (52 + (?e - 52)) = 2 powi 52 * 2 powi (?e - 52)"
      by (rule power_int_add) simp
    then show ?thesis by (simp add: ulp_def)
  qed
  have hi: "(2::real) powi (?e + 1) = 2 ^ 53 * ulp"
  proof -
    have "(2::real) powi (53 + (?e - 52)) = 2 powi 53 * 2 powi (?e - 52)"
      by (rule power_int_add) simp
    then show ?thesis by (simp add: ulp_def add.commute)
  qed
  from binaryExponent_bounds [OF assms(1)]
  have "2 ^ 52 * ulp \<le> x" "x < 2 ^ 53 * ulp" unfolding lo hi by simp_all
  then have q: "of_int (2 ^ 52) \<le> x / ulp" "x / ulp < of_int (2 ^ 53)"
    using pos by (simp_all add: pos_le_divide_eq pos_divide_less_eq)
  from roundHalfEven_between [OF q] have m: "2 ^ 52 \<le> ?m" "?m \<le> 2 ^ 53" by simp_all
  have "\<bar>of_int ?m * ulp - x\<bar> = \<bar>of_int ?m - x / ulp\<bar> * ulp"
  proof -
    have "of_int ?m * ulp - x = (of_int ?m - x / ulp) * ulp"
      using pos by (simp add: field_simps)
    then show ?thesis using pos by (simp add: abs_mult)
  qed
  also have "\<dots> \<le> 1 / 2 * ulp"
    using roundHalfEven_near [of "x / ulp"] pos by (intro mult_right_mono) simp_all
  finally have near: "\<bar>of_int ?m * ulp - x\<bar> \<le> ulp / 2" by simp
  from r m near show ?thesis by blast
qed










lemma floor_values:
  "\<lfloor>(8092405580431359::real) / 2 ^ 47\<rfloor> = 57"
  "\<lfloor>(7599824371187711::real) / 2 ^ 44\<rfloor> = 431"
  by simp_all












lemma purchase_success:
  assumes cfg: "find (\<lambda>c. config_id c = clickerId) autoClickerConfigs = Some config"
    and lvl: "clickerLevel clickerId (gameState w) < maxLevel config"
    and unl: "checkUnlockRequirement (unlockRequirement config) (gameState w)"
    and funds: "\<not> money (resources (gameState w))
                  < calculateAutoClickerCost pow config (clickerLevel clickerId (gameState w))"
  shows "fst (purchaseAutoClicker pow now clickerId w) =
           \<lparr>purchase_success = True,
            cost = Some (calculateAutoClickerCost pow config (clickerLevel clickerId (gameState w))),
            newLevel = Some (clickerLevel clickerId (gameState w) + 1), error = None\<rparr>"
    and "clickerLevel clickerId (gameState (snd (purchaseAutoClicker pow now clickerId w)))
           = clickerLevel clickerId (gameState w) + 1"
proof -
  let ?L = "clickerLevel clickerId (gameState w)"
  let ?cs = "autoClickers (automation (gameState w))"
  let ?p = "\<lambda>c. clicker_id c = clickerId"
  show "fst (purchaseAutoClicker pow now clickerId w) =
           \<lparr>purchase_success = True, cost = Some (calculateAutoClickerCost pow config ?L),
            newLevel = Some (?L + 1), error = None\<rparr>"
    using cfg lvl unl funds
    by (simp add: purchaseAutoClicker_def clickerLevel_def Let_def split_beta not_le
        split: option.splits)
  show "clickerLevel clickerId (gameState (snd (purchaseAutoClicker pow now clickerId w))) = ?L + 1"
  proof (cases "find ?p ?cs")
    case None
    have "find ?p (?cs @ [\<lparr>clicker_id = clickerId, level = ?L + 1, isActive = True,
             totalClicks = 0, efficiency = 1\<rparr>]) = Some \<lparr>clicker_id = clickerId, level = ?L + 1,
             isActive = True, totalClicks = 0, efficiency = 1\<rparr>"
      using None by (intro find_append_new) simp_all
    then show ?thesis
      using cfg lvl unl funds None
      by (simp add: purchaseAutoClicker_def clickerLevel_def Let_def split_beta not_le
          checkAchievements_automation updateAutomation_def emitEvent_def addResources_def)
  next
    case (Some existing)
    have pe: "?p (existing\<lparr>level := ?L + 1\<rparr>)"
      using find_Some_holds [OF Some] by simp
    from find_update_existing [OF Some pe]
    obtain i where i: "findIndex ?p ?cs = Some i"
      and f: "find ?p (?cs[i := existing\<lparr>level := ?L + 1\<rparr>]) = Some (existing\<lparr>level := ?L + 1\<rparr>)"
      by (auto split: option.splits)
    have L: "?L = level existing" using Some by (simp add: clickerLevel_def)
    show ?thesis
      using cfg lvl unl funds Some i f
      by (simp add: purchaseAutoClicker_def clickerLevel_def Let_def split_beta not_le
          checkAchievements_automation updateAutomation_def emitEvent_def addResources_def)
  qed
qed








subsection \<open>Manual production and the combo\<close>

lemma fold_unlockStep_services:
  "clickCombo (fold (unlockStep now state) ps w) = clickCombo w"
  "lastClickTime (fold (unlockStep now state) ps w) = lastClickTime w"
  by (induction ps arbitrary: w)
     (simp_all add: unlockStep_def applyReward_def updateAchievements_def emitEvent_def
        addResources_def Let_def)

lemma checkAchievements_services:
  "clickCombo (snd (checkAchievements now w)) = clickCombo w"
  "lastClickTime (snd (checkAchievements now w)) = lastClickTime w"
  by (simp_all add: checkAchievements_closed fold_unlockStep_services)

lemma produceMatchsticks_combo:
  "clickCombo (snd (produceMatchsticks t n w)) =
     (clickCombo w)\<lparr>count := min (count (clickCombo w) + 1) (maxCombo (clickCombo w)),
       combo_multiplier := 1 + (real (min (count (clickCombo w) + 1) (maxCombo (clickCombo w))) - 1) * 0.01\<rparr>"
  "comboCount (fst (produceMatchsticks t n w)) = min (count (clickCombo w) + 1) (maxCombo (clickCombo w))"
  "comboMultiplier (fst (produceMatchsticks t n w)) =
     1 + (real (min (count (clickCombo w) + 1) (maxCombo (clickCombo w))) - 1) * 0.01"
  "lastClickTime (snd (produceMatchsticks t n w)) = t"
  by (simp_all add: produceMatchsticks_def updateClickCombo_def updateClickStats_def Let_def
      split_beta checkAchievements_services emitEvent_def updateProduction_def addResources_def)

text \<open>
  C2: two consecutive calls of \<open>produceMatchsticks\<close> 5000 ms apart.  \<open>updateClickStats\<close>
  stores the current time in \<open>lastClickTime\<close> before \<open>updateClickCombo\<close> reads it, so the
  elapsed time is always zero and the combo continues: the second call returns count 2 and
  multiplier 1.01, where the claim has count 1 and multiplier 1.
\<close>

theorem C2_combo_not_reset_after_gap:
  "lastClickTime (snd (produceMatchsticks 1000 1 (initialWorld 0))) = 1000 \<and>
   comboCount (fst (produceMatchsticks 1000 1 (initialWorld 0))) = 1 \<and>
   comboCount (fst (produceMatchsticks 6000 1 (snd (produceMatchsticks 1000 1 (initialWorld 0))))) = 2 \<and>
   comboMultiplier (fst (produceMatchsticks 6000 1 (snd (produceMatchsticks 1000 1 (initialWorld 0)))))
     = 1.01"
  by (simp add: produceMatchsticks_combo) (simp add: initialWorld_def)

subsection \<open>Selling matchsticks\<close>

lemma sellMatchsticks_rejected:
  assumes "amount \<le> 0 \<or> amount > matchsticks (resources (gameState w))"
  shows "\<not> success (fst (sellMatchsticks now amount w))"
    and "gameState (snd (sellMatchsticks now amount w)) = gameState w"
  using assms by (auto simp: sellMatchsticks_def Let_def sellFailure_def handleError_def)

lemma gameActions_sellMatchsticks_ok:
  assumes "0 < amount" and "amount \<le> matchsticks (resources (gameState w))"
  shows "fst (gameActions_sellMatchsticks now amount w)"
    and "gameState (snd (gameActions_sellMatchsticks now amount w)) =
       (gameState w)\<lparr>resources := (resources (gameState w))
           \<lparr>matchsticks := matchsticks (resources (gameState w)) - amount,
            money := money (resources (gameState w))
                       + real_of_int amount * currentPrice (market (gameState w))\<rparr>,
         market := (market (gameState w))
           \<lparr>totalSold := SafeBigInt_add (totalSold (market (gameState w))) amount,
            totalRevenue := totalRevenue (market (gameState w))
                       + real_of_int amount * currentPrice (market (gameState w))\<rparr>\<rparr>"
    and "achievementList (snd (gameActions_sellMatchsticks now amount w)) = achievementList w"
  using assms
  by (simp_all add: gameActions_sellMatchsticks_def subtractResources_def addResources_def
      updateMarket_def emitEvent_def no_delta_def or0_def truthy_def Let_def split_beta
      SafeBigInt_compare_def SafeBigInt_subtract_def)

lemma sellMatchsticks_ok:
  assumes "0 < amount" and "amount \<le> matchsticks (resources (gameState w))"
  shows "snd (sellMatchsticks now amount w) = snd (checkAchievements now (beforeCheck now amount w))"
    and "success (fst (sellMatchsticks now amount w))"
    and "revenue (fst (sellMatchsticks now amount w)) =
           real_of_int amount * (currentPrice (market (gameState w)) * calculateMarketImpact amount)"
    and "pricePerUnit (fst (sellMatchsticks now amount w)) =
           currentPrice (market (gameState w)) * calculateMarketImpact amount"
    and "remainingMatchsticks (fst (sellMatchsticks now amount w)) =
           matchsticks (resources (gameState w)) - amount"
  using assms gameActions_sellMatchsticks_ok [OF assms, of now]
  by (simp_all add: sellMatchsticks_def beforeCheck_def Let_def split_beta getCurrentPrice_def
      addResources_def no_delta_def or0_def truthy_def)

lemma beforeCheck_state:
  assumes "0 < amount" and "amount \<le> matchsticks (resources (gameState w))"
  shows "gameState (beforeCheck now amount w) = soldState amount (gameState w)"
    and "achievementList (beforeCheck now amount w) = achievementList w"
  using gameActions_sellMatchsticks_ok [OF assms, of now]
  by (simp_all add: beforeCheck_def soldState_def Let_def getCurrentPrice_def addResources_def
      updateMarket_def updatePriceAfterTrade_def emitEvent_def no_delta_def or0_def truthy_def
      algebra_simps)


lemma fold_unlockStep_resources:
  "resources (gameState (fold (unlockStep now state) ps w)) =
     (resources (gameState w))\<lparr>money := money (resources (gameState w)) + sum_list (map rewardMoney ps)\<rparr>"
  by (induction ps arbitrary: w) (simp_all add: gameState_unlockStep add.assoc)

lemma checkAchievements_state:
  "resources (gameState (snd (checkAchievements now w))) =
     (resources (gameState w))\<lparr>money := money (resources (gameState w))
        + sum_list (map rewardMoney (filter (pending (gameState w)) (achievementList w)))\<rparr>"
  "market (gameState (snd (checkAchievements now w))) = market (gameState w)"
  using checkAchievements_qualifying [of now w]
  by (simp_all add: checkAchievements_closed fold_unlockStep_resources qualifying_def)

lemma sellMatchsticks_accepted:
  assumes "0 < amount" and "amount \<le> matchsticks (resources (gameState w))"
  shows "resources (gameState (snd (sellMatchsticks now amount w))) =
     (resources (gameState w))
       \<lparr>matchsticks := matchsticks (resources (gameState w)) - amount,
        money := money (resources (gameState w))
          + real_of_int amount * currentPrice (market (gameState w))
          + real_of_int amount * (currentPrice (market (gameState w)) * calculateMarketImpact amount)
          + sum_list (map rewardMoney
              (filter (pending (soldState amount (gameState w))) (achievementList w)))\<rparr>"
  by (simp add: sellMatchsticks_ok [OF assms] checkAchievements_state beforeCheck_state [OF assms])
     (simp add: soldState_def Let_def)

lemma marketWorld_state:
  "matchsticks (resources (gameState marketWorld)) = 1000"
  "money (resources (gameState marketWorld)) = 0"
  "currentPrice (market (gameState marketWorld)) = 1"
  "achievementList marketWorld = initializeAchievements"
  by (simp_all add: marketWorld_def addResources_def initialWorld_def createInitialGameState_def
      no_delta_def or0_def truthy_def Let_def SafeBigInt_add_def MAX_SAFE_def)

lemma marketWorld_sold:
  "soldState 10 (gameState marketWorld) =
     (gameState marketWorld)
       \<lparr>resources := \<lparr>matchsticks = 990, money = 20, wood = 0, reputation = 0\<rparr>,
        market := (market (gameState marketWorld))
          \<lparr>totalSold := 20, totalRevenue := 20, currentPrice := 0.998\<rparr>\<rparr>"
  by (simp add: soldState_def calculateMarketImpact_def marketWorld_def addResources_def
      initialWorld_def createInitialGameState_def no_delta_def or0_def truthy_def Let_def
      SafeBigInt_add_def MAX_SAFE_def)

lemma marketWorld_rewards:
  "map rewardMoney (filter (pending (soldState 10 (gameState marketWorld))) initializeAchievements)
     = [25]"
  unfolding marketWorld_sold
  by (simp add: marketWorld_def addResources_def initialWorld_def createInitialGameState_def
      no_delta_def or0_def truthy_def Let_def
      initializeAchievements_def pending_def isAchievementMet_def mkAchievement_def
      resource_total_def stat_threshold_def phase_reached_def rewardMoney_def)

text \<open>
  C1: the sale of 10 matchsticks from holdings of 1000 at price 1.  The sale succeeds with
  revenue 10, price per unit 1 and 990 matchsticks left, but \<open>gameActions.sellMatchsticks\<close>
  has already credited the money and counted the sale when \<open>MarketService.sellMatchsticks\<close>
  credits and counts them again: money is 20 when the achievements are checked (45 after
  the reward of the first sale), and \<open>totalSold\<close> and \<open>totalRevenue\<close> are 20.
\<close>

theorem C1_sale_credits_revenue_twice:
  "matchsticks (resources (gameState marketWorld)) = 1000 \<and>
   money (resources (gameState marketWorld)) = 0 \<and>
   currentPrice (market (gameState marketWorld)) = 1 \<and>
   success (fst (sellMatchsticks 1 10 marketWorld)) \<and>
   revenue (fst (sellMatchsticks 1 10 marketWorld)) = 10 \<and>
   pricePerUnit (fst (sellMatchsticks 1 10 marketWorld)) = 1 \<and>
   remainingMatchsticks (fst (sellMatchsticks 1 10 marketWorld)) = 990 \<and>
   money (resources (gameState (beforeCheck 1 10 marketWorld))) = 20 \<and>
   resources (gameState (snd (sellMatchsticks 1 10 marketWorld))) =
     \<lparr>matchsticks = 990, money = 45, wood = 0, reputation = 0\<rparr> \<and>
   totalSold (market (gameState (snd (sellMatchsticks 1 10 marketWorld)))) = 20 \<and>
   totalRevenue (market (gameState (snd (sellMatchsticks 1 10 marketWorld)))) = 20"
proof -
  have ok: "(0::int) < 10" "10 \<le> matchsticks (resources (gameState marketWorld))"
    by (simp_all add: marketWorld_state)
  have impact: "calculateMarketImpact 10 = 1"
    by (simp add: calculateMarketImpact_def)
  note sale = sellMatchsticks_ok [OF ok, of 1] beforeCheck_state [OF ok, of 1]
  show ?thesis
    by (simp add: sale checkAchievements_state marketWorld_state marketWorld_rewards impact)
       (simp add: marketWorld_sold)
qed

subsection \<open>Persistence\<close>

lemma digitValue_digitChar: "d < 10 \<Longrightarrow> digitValue (digitChar d) = Some d"
proof -
  assume "d < 10"
  then have "d = 0 \<or> d = 1 \<or> d = 2 \<or> d = 3 \<or> d = 4 \<or> d = 5 \<or> d = 6 \<or> d = 7 \<or> d = 8 \<or> d = 9"
    by arith
  then show ?thesis by (auto simp: digitValue_def digitChar_def)
qed

lemma parseDigits_append:
  "parseDigits acc (xs @ ys) =
     (case parseDigits acc xs of None \<Rightarrow> None | Some a \<Rightarrow> parseDigits a ys)"
  by (induction xs arbitrary: acc) (simp_all split: option.splits)

lemma parseDigits_natToString: "parseDigits 0 (natToString n) = Some n"
proof (induction n rule: natToString.induct)
  case (1 n)
  show ?case
  proof (cases "n < 10")
    case True
    then show ?thesis
      by (subst natToString.simps) (simp add: digitValue_digitChar)
  next
    case False
    with 1 have "parseDigits 0 (natToString (n div 10)) = Some (n div 10)" by simp
    with False show ?thesis
      by (subst natToString.simps) (simp add: parseDigits_append digitValue_digitChar)
  qed
qed

lemma natToString_digits: "c \<in> set (natToString n) \<Longrightarrow> digitValue c \<noteq> None"
proof (induction n rule: natToString.induct)
  case (1 n)
  from "1.prems" have "c \<in> set (if n < 10 then [digitChar n]
      else natToString (n div 10) @ [digitChar (n mod 10)])"
    by (subst (asm) natToString.simps) simp
  with "1.IH" show ?case
    by (auto simp: digitValue_digitChar split: if_splits)
qed

lemma natToString_nonempty: "natToString n \<noteq> []"
  by (subst natToString.simps) simp

lemma digitValue_signs: "digitValue (CHR ''-'') = None" "digitValue (CHR ''+'') = None"
  by (simp_all add: digitValue_def)

lemma stringToBigInt_natToString: "stringToBigInt (natToString n) = Some (int n)"
proof -
  obtain c cs where s: "natToString n = c # cs"
    using natToString_nonempty [of n] by (cases "natToString n") auto
  then have "digitValue c \<noteq> None"
    using natToString_digits [of c n] by simp
  then have "c \<noteq> CHR ''-''" "c \<noteq> CHR ''+''"
    using digitValue_signs by auto
  then show ?thesis
    using parseDigits_natToString [of n] by (simp add: stringToBigInt_def s)
qed

lemma stringToBigInt_bigintToString: "stringToBigInt (bigintToString b) = Some b"
proof (cases "b < 0")
  case True
  then show ?thesis
    using parseDigits_natToString [of "nat (- b)"] natToString_nonempty [of "nat (- b)"]
    by (simp add: bigintToString_def stringToBigInt_def)
next
  case False
  then show ?thesis
    using stringToBigInt_natToString [of "nat b"] by (simp add: bigintToString_def)
qed

lemma reviver_replacer:
  "bigIntReviver key' (bigIntReplacer key (VBigInt b)) = Inr (VBigInt b)"
  by (simp add: bigIntReviver_def bigIntReplacer_def getProp_def BigInt_def
      stringToBigInt_bigintToString)

lemma reviver_untagged:
  "getProp v ''__type'' \<noteq> Some (VString ''bigint'') \<Longrightarrow> bigIntReviver key v = Inr v"
  by (simp add: bigIntReviver_def)

lemma roundtrip_walk:
  "tag_free v \<Longrightarrow> \<exists>j. toJson (applyReplacer key v) = Inr j \<and> (\<forall>key'. parse key' j = Inr v)"
  "tag_free_elements xs \<Longrightarrow>
     \<exists>js. toJsonElements (applyReplacerElements xs) = Inr js \<and> parseElements js = Inr xs"
  "tag_free_properties ps \<Longrightarrow>
     \<exists>qs. toJsonProperties (applyReplacerProperties ps) = Inr qs \<and> parseProperties qs = Inr ps"
proof (induction key v and xs and ps
    rule: applyReplacer_applyReplacerElements_applyReplacerProperties.induct)
  case (1 key xs)
  then obtain js where "toJsonElements (applyReplacerElements xs) = Inr js"
    "parseElements js = Inr xs" by auto
  then show ?case by (simp add: reviver_untagged getProp_def)
next
  case (2 key ps)
  then obtain qs where "toJsonProperties (applyReplacerProperties ps) = Inr qs"
    "parseProperties qs = Inr ps" by auto
  with "2.prems" show ?case by (simp add: reviver_untagged getProp_def)
next
  case (7 key b)
  have "bigIntReviver key' (VObject [(''__type'', VString ''bigint''),
          (''value'', VString (bigintToString b))]) = Inr (VBigInt b)" for key'
    using reviver_replacer [of key' key b] by (simp add: bigIntReplacer_def)
  then show ?case
    by (simp add: bigIntReplacer_def reviver_untagged getProp_def)
next
  case (9 x xs)
  then obtain j js where "toJson (applyReplacer [] x) = Inr j" "\<forall>key'. parse key' j = Inr x"
    "toJsonElements (applyReplacerElements xs) = Inr js" "parseElements js = Inr xs"
    by auto
  then show ?case by simp
next
  case (11 p ps)
  then obtain j qs where "toJson (applyReplacer (fst p) (snd p)) = Inr j"
    "\<forall>key'. parse key' j = Inr (snd p)"
    "toJsonProperties (applyReplacerProperties ps) = Inr qs" "parseProperties qs = Inr ps"
    by auto
  then show ?case by simp
qed (simp_all add: bigIntReplacer_def reviver_untagged getProp_def)

lemma sanitize_roundtrip:
  assumes "tag_free v"
  shows "sanitizeGameState v = Inr v"
  using roundtrip_walk(1) [OF assms, of "[]"]
  by (auto simp: sanitizeGameState_def stringify_def)

lemma stringify_ok:
  assumes "tag_free v"
  shows "\<exists>j. stringify v = Inr j"
  using roundtrip_walk(1) [OF assms, of "[]"] by (auto simp: stringify_def)

lemma save_load_roundtrip:
  assumes tf: "tag_free v"
    and md: "notNullish (getProp v ''metadata'')" "notNullish (getProp v ''progression'')"
  shows "\<exists>gameSave. saveGame digest saveId saveName now v isAuto = Inr gameSave \<and>
           save_gameState gameSave = v \<and> checksum gameSave \<noteq> None \<and>
           fst (loadGame digest (Some gameSave)) = Some v"
proof -
  from stringify_ok [OF tf] obtain j where j: "stringify v = Inr j" by blast
  show ?thesis
    by (simp add: saveGame_def loadGame_def createChecksum_def j sanitize_roundtrip [OF tf] md)
qed

lemma tag_free_strings: "tag_free_elements (map VString xs)"
  by (induction xs) simp_all

lemma tag_free_entries: "tag_free_elements (map js_of_PriceHistoryEntry xs)"
  by (induction xs) (simp_all add: js_of_PriceHistoryEntry_def)

lemma tag_free_clickers: "tag_free_elements (map js_of_AutoClicker xs)"
  by (induction xs) (simp_all add: js_of_AutoClicker_def)

lemma tag_free_multipliers:
  "tag_free_properties (map (\<lambda>km. (fst km, VNumber (snd km))) ms)"
  "map_of (map (\<lambda>km. (fst km, VNumber (snd km))) ms) key \<noteq> Some (VString s)"
  by (induction ms) simp_all

lemma tag_free_market: "tag_free (js_of_MarketState m)"
  by (cases "condition m")
     (simp_all add: js_of_MarketState_def js_of_MarketCondition_def tag_free_entries)

lemma tag_free_GameState: "tag_free (js_of_GameState g)"
  by (simp add: js_of_GameState_def js_of_ResourceState_def js_of_ProductionState_def
      js_of_AutomationState_def js_of_AutoSellSettings_def js_of_AchievementState_def
      js_of_ProgressionState_def js_of_GameMetadata_def tag_free_market tag_free_strings
      tag_free_clickers tag_free_multipliers)

lemma sections_GameState:
  "notNullish (getProp (js_of_GameState g) ''metadata'')"
  "notNullish (getProp (js_of_GameState g) ''progression'')"
  by (simp_all add: js_of_GameState_def getProp_def notNullish_def js_of_GameMetadata_def
      js_of_ProgressionState_def)

text \<open>
  C8: loading a save of a state gives the state back.  This holds for every JavaScript
  value that is free of forged tags and has the sections \<open>metadata\<close> and \<open>progression\<close>
  that \<open>saveGame\<close> reads, hence for every game
  state, whatever the size of its bigint fields; the replacer encodes a bigint as the tagged
  object with its decimal string, and the reviver gives the bigint back.
\<close>

theorem C8_save_load_roundtrip:
  "(tag_free v \<and> notNullish (getProp v ''metadata'') \<and> notNullish (getProp v ''progression'')
      \<longrightarrow> saveThenLoad digest saveId saveName now v isAuto = Inr (Some v)) \<and>
   saveThenLoad digest saveId saveName now (js_of_GameState g) isAuto = Inr (Some (js_of_GameState g)) \<and>
   bigIntReplacer key (VBigInt b) =
     VObject [(''__type'', VString ''bigint''), (''value'', VString (bigintToString b))] \<and>
   bigIntReviver key' (bigIntReplacer key (VBigInt b)) = Inr (VBigInt b)"
proof -
  have gen: "saveThenLoad digest saveId saveName now u isAuto = Inr (Some u)"
    if "tag_free u" "notNullish (getProp u ''metadata'')" "notNullish (getProp u ''progression'')"
    for u
    using save_load_roundtrip [OF that, of digest saveId saveName now isAuto]
    by (auto simp: saveThenLoad_def)
  have a: "tag_free v \<and> notNullish (getProp v ''metadata'') \<and>
      notNullish (getProp v ''progression'')
      \<longrightarrow> saveThenLoad digest saveId saveName now v isAuto = Inr (Some v)"
    using gen [of v] by auto
  have b: "saveThenLoad digest saveId saveName now (js_of_GameState g) isAuto
             = Inr (Some (js_of_GameState g))"
    using tag_free_GameState sections_GameState by (rule gen)
  from a b show ?thesis
    by (simp add: reviver_replacer) (simp add: bigIntReplacer_def)
qed

lemma big_string: "bigintToString 999999999999999999 = ''999999999999999999''"
  by (simp add: bigintToString_def natToString.simps digitChar_def)

theorem C8_save_load_roundtrip_witness:
  "tag_free (js_of_GameState bigState) \<and>
   notNullish (getProp (js_of_GameState bigState) ''metadata'') \<and>
   notNullish (getProp (js_of_GameState bigState) ''progression'') \<and>
   (2::int) ^ 53 < matchsticks (resources bigState) \<and>
   2 ^ 53 < totalProduced (production bigState) \<and>
   2 ^ 53 < totalSold (market bigState) \<and>
   saveThenLoad sampleDigest ''save_1'' ''Test Save'' 7 (js_of_GameState bigState) False
     = Inr (Some (js_of_GameState bigState)) \<and>
   bigIntReplacer [] (VBigInt 999999999999999999) =
     VObject [(''__type'', VString ''bigint''), (''value'', VString ''999999999999999999'')] \<and>
   bigIntReviver [] (VObject [(''__type'', VString ''bigint''),
     (''value'', VString ''999999999999999999'')]) = Inr (VBigInt 999999999999999999)"
proof -
  have tf: "tag_free (js_of_GameState bigState)" by (rule tag_free_GameState)
  have md: "notNullish (getProp (js_of_GameState bigState) ''metadata'')"
    "notNullish (getProp (js_of_GameState bigState) ''progression'')"
    by (rule sections_GameState)+
  have big: "(2::int) ^ 53 < matchsticks (resources bigState)"
    "2 ^ 53 < totalProduced (production bigState)" "2 ^ 53 < totalSold (market bigState)"
    by (simp_all add: bigState_def createInitialGameState_def)
  from C8_save_load_roundtrip [where v = "js_of_GameState bigState" and digest = sampleDigest
      and saveId = "''save_1''" and saveName = "''Test Save''" and now = 7 and isAuto = False
      and g = bigState and key = "[]" and key' = "[]" and b = 999999999999999999]
  have rt: "saveThenLoad sampleDigest ''save_1'' ''Test Save'' 7 (js_of_GameState bigState) False
     = Inr (Some (js_of_GameState bigState))"
    and rep: "bigIntReplacer [] (VBigInt 999999999999999999) =
       VObject [(''__type'', VString ''bigint''),
         (''value'', VString (bigintToString 999999999999999999))]"
    and rev: "bigIntReviver [] (bigIntReplacer [] (VBigInt 999999999999999999))
       = Inr (VBigInt 999999999999999999)"
    by blast+
  from rev have rev': "bigIntReviver [] (VObject [(''__type'', VString ''bigint''),
     (''value'', VString ''999999999999999999'')]) = Inr (VBigInt 999999999999999999)"
    by (simp only: rep big_string)
  from tf md big rt rep rev' show ?thesis
    by (simp add: big_string)
qed

lemma stringify_total_walk:
  "\<exists>j. toJson (applyReplacer key v) = Inr j"
  "\<exists>js. toJsonElements (applyReplacerElements xs) = Inr js"
  "\<exists>qs. toJsonProperties (applyReplacerProperties ps) = Inr qs"
  by (induction key v and xs and ps
      rule: applyReplacer_applyReplacerElements_applyReplacerProperties.induct)
     (auto simp: bigIntReplacer_def)

lemma createChecksum_total: "\<exists>c. createChecksum digest v = Inr c"
  using stringify_total_walk(1) [of "[]" v] by (auto simp: createChecksum_def stringify_def)

lemma sampleChecksum: "createChecksum sampleDigest v = Inr ''ab01''"
proof -
  obtain j where "stringify v = Inr j"
    using stringify_total_walk(1) [of "[]" v] by (auto simp: stringify_def)
  then show ?thesis
    by (simp add: createChecksum_def sampleDigest_def padStart2_def toString16.simps hexDigit_def)
qed

text \<open>
  C10, as stated: \<open>loadGame\<close> returns null exactly when a checksum is present and differs
  from the recomputed one.  The guard is the truthiness of the field, so a record whose
  checksum is the empty string is returned unverified although the recomputed checksum
  differs from it.
\<close>

theorem C10_empty_checksum_counterexample:
  "checksum (storedSave (Some [])) = Some [] \<and>
   createChecksum sampleDigest (save_gameState (storedSave (Some []))) = Inr ''ab01'' \<and>
   fst (loadGame sampleDigest (Some (storedSave (Some [])))) = Some (save_gameState (storedSave (Some [])))"
  by (simp add: sampleChecksum loadGame_def storedSave_def)

text \<open>
  C10, amended: for every stored save whose checksum is absent or empty \<open>loadGame\<close> returns
  the stored state without verification; it returns null exactly when a non-empty checksum
  is present and the recomputed checksum differs from it; and whenever it returns a state,
  it is the stored state.
\<close>

theorem C10_loadGame_checksum:
  "(checksum s = None \<or> checksum s = Some [] \<longrightarrow>
      loadGame digest (Some s) = (Some (save_gameState s), [])) \<and>
   (fst (loadGame digest (Some s)) = None \<longleftrightarrow>
      (\<exists>c. checksum s = Some c \<and> c \<noteq> [] \<and> createChecksum digest (save_gameState s) \<noteq> Inr c)) \<and>
   (fst (loadGame digest (Some s)) \<noteq> None \<longrightarrow>
      fst (loadGame digest (Some s)) = Some (save_gameState s))"
proof -
  obtain e where e: "createChecksum digest (save_gameState s) = Inr e"
    using createChecksum_total by blast
  show ?thesis
    by (cases "checksum s") (auto simp: loadGame_def e)
qed

theorem C10_loadGame_checksum_witness:
  "loadGame sampleDigest (Some (storedSave None)) = (Some (VObject []), []) \<and>
   loadGame sampleDigest (Some (storedSave (Some ''ab01''))) = (Some (VObject []), []) \<and>
   loadGame sampleDigest (Some (storedSave (Some ''ab02''))) = (None, [''Save file corrupted''])"
  using C10_loadGame_checksum [of "storedSave None" sampleDigest]
    C10_loadGame_checksum [of "storedSave (Some ''ab01'')" sampleDigest]
    C10_loadGame_checksum [of "storedSave (Some ''ab02'')" sampleDigest]
  by (simp add: loadGame_def sampleChecksum storedSave_def)

end
